theory Spec2Isabelle
  imports Complex_Main
begin

section \<open>Python values: exceptions, strings, paths, number formatting\<close>

text \<open>
  Every \<^verbatim>\<open>raise\<close> of the program is a value of \<open>exn\<close>.  A call that may raise
  returns \<open>exn + 'a\<close>; a method that mutates its object and may raise returns the
  pair of the optional exception and the object as the call left it.
\<close>

datatype exn =
    ModelFileError string
  | GcodeParserError string
  | StlParseError string
  | GeometryError string
  | AssertionError
  | IndexError
  | KeyError string
  | AttributeError string
  | ZeroDivisionError
  | OSError string
  | OtherError string

text \<open>
  Python floats are modelled by the real numbers they denote (finite values only,
  exact arithmetic); strings are lists of 8-bit characters.
\<close>

type_synonym vec3 = "real \<times> real \<times> real"

text \<open>\<^verbatim>\<open>str.lower\<close>, on ASCII letters.\<close>

definition lower_char :: "char \<Rightarrow> char" where
  "lower_char c =
     (let n = (of_char c :: nat) in if 65 \<le> n \<and> n \<le> 90 then char_of (n + 32) else c)"

definition lower :: "string \<Rightarrow> string" where
  "lower s = map lower_char s"

text \<open>\<^verbatim>\<open>s.rfind(c)\<close>: the last index of \<open>c\<close> in \<open>s\<close>, or \<open>-1\<close>.\<close>

definition rfind :: "string \<Rightarrow> char \<Rightarrow> int" where
  "rfind s c =
     (if c \<in> set s
      then int (length s) - 1 - int (length (takeWhile (\<lambda>x. x \<noteq> c) (rev s)))
      else - 1)"

text \<open>\<^verbatim>\<open>os.path.basename\<close> (posixpath): \<^verbatim>\<open>i = p.rfind('/') + 1; return p[i:]\<close>.\<close>

definition os_path_basename :: "string \<Rightarrow> string" where
  "os_path_basename p = drop (nat (rfind p (CHR ''/'') + 1)) p"

text \<open>
  \<^verbatim>\<open>os.path.splitext\<close> (posixpath, through \<^verbatim>\<open>genericpath._splitext\<close>):
  \<^verbatim>\<open>
    sepIndex = p.rfind(sep)
    dotIndex = p.rfind(extsep)
    if dotIndex > sepIndex:
        # skip all leading dots
        filenameIndex = sepIndex + 1
        while filenameIndex < dotIndex:
            if p[filenameIndex:filenameIndex+1] != extsep:
                return p[:dotIndex], p[dotIndex:]
            filenameIndex += 1
    return p, p[:0]
  \<close>
  \<open>splitext_scan\<close> is the while loop; \<open>None\<close> means it ran to its end.
\<close>

function splitext_scan :: "string \<Rightarrow> nat \<Rightarrow> nat \<Rightarrow> (string \<times> string) option" where
  "splitext_scan p filenameIndex dotIndex =
     (if filenameIndex < dotIndex
      then (if take 1 (drop filenameIndex p) \<noteq> ''.''
            then Some (take dotIndex p, drop dotIndex p)
            else splitext_scan p (filenameIndex + 1) dotIndex)
      else None)"
  by pat_completeness auto
termination
  by (relation "measure (\<lambda>(p, filenameIndex, dotIndex). dotIndex - filenameIndex)") auto

declare splitext_scan.simps [simp del]

definition os_path_splitext :: "string \<Rightarrow> string \<times> string" where
  "os_path_splitext p =
     (let sepIndex = rfind p (CHR ''/'');
          dotIndex = rfind p (CHR ''.'')
      in if dotIndex > sepIndex
         then (case splitext_scan p (nat (sepIndex + 1)) (nat dotIndex) of
                 Some r \<Rightarrow> r
               | None \<Rightarrow> (p, ''''))
         else (p, ''''))"

text \<open>\<^verbatim>\<open>sep.join(xs)\<close>.\<close>

fun join :: "string \<Rightarrow> string list \<Rightarrow> string" where
  "join sep [] = ''''"
| "join sep [x] = x"
| "join sep (x # y # ys) = x @ sep @ join sep (y # ys)"

text \<open>
  \<^verbatim>\<open>"%.6f" % x\<close>: fixed point with six decimals, the exact value rounded half to
  even, a minus sign whenever \<open>x\<close> is negative (also when it rounds to zero).  A
  float's negative zero, which Python prints as \<^verbatim>\<open>-0.000000\<close>, has no counterpart
  among the reals: the real \<open>0\<close> is the float \<open>0.0\<close>.
\<close>

definition round_half_even :: "real \<Rightarrow> int" where
  "round_half_even r =
     (let f = \<lfloor>r\<rfloor>; d = r - of_int f
      in if d < 1 / 2 then f else if 1 / 2 < d then f + 1 else if even f then f else f + 1)"

definition digit_char :: "nat \<Rightarrow> char" where
  "digit_char d = ''0123456789'' ! d"

fun str_nat :: "nat \<Rightarrow> string" where
  "str_nat n =
     (if n < 10 then [digit_char n] else str_nat (n div 10) @ [digit_char (n mod 10)])"

declare str_nat.simps [simp del]

definition fmt6 :: "real \<Rightarrow> string" where
  "fmt6 x =
     (let n = nat (round_half_even (\<bar>x\<bar> * 1000000));
          frac = str_nat (n mod 1000000)
      in (if x < 0 then ''-'' else '''') @ str_nat (n div 1000000) @ ''.''
         @ drop (length frac) ''000000'' @ frac)"

text \<open>\<^verbatim>\<open>xs[i]\<close> for \<open>i \<ge> 0\<close>, and a list comprehension whose element may raise.\<close>

definition py_index :: "'a list \<Rightarrow> nat \<Rightarrow> exn + 'a" where
  "py_index xs i = (if i < length xs then Inr (xs ! i) else Inl IndexError)"

fun collect :: "('a \<Rightarrow> exn + 'b) \<Rightarrow> 'a list \<Rightarrow> exn + 'b list" where
  "collect f [] = Inr []"
| "collect f (x # xs) =
     (case f x of
        Inl e \<Rightarrow> Inl e
      | Inr y \<Rightarrow> (case collect f xs of Inl e \<Rightarrow> Inl e | Inr ys \<Rightarrow> Inr (y # ys)))"

text \<open>\<^verbatim>\<open>range(0, n, 3)\<close>.\<close>

definition range3 :: "nat \<Rightarrow> nat list" where
  "range3 n = map (\<lambda>k. 3 * k) [0..<(n + 2) div 3]"

section \<open>The file system\<close>

text \<open>
  The files by path, and the paths the operating system refuses to open.
  \<^verbatim>\<open>open(path, "w")\<close> truncates; \<^verbatim>\<open>print(s, file=f)\<close> appends \<open>s\<close> and a newline.
\<close>

record world =
  files :: "string \<rightharpoonup> string"
  open_error :: "string \<Rightarrow> exn option"


definition open_write :: "world \<Rightarrow> string \<Rightarrow> exn option \<times> world" where
  "open_write w p =
     (case open_error w p of
        Some e \<Rightarrow> (Some e, w)
      | None \<Rightarrow> (None, w\<lparr>files := (files w)(p \<mapsto> '''')\<rparr>))"

definition print_file :: "world \<Rightarrow> string \<Rightarrow> string \<Rightarrow> world" where
  "print_file w p s =
     w\<lparr>files := (files w)(p \<mapsto> (case files w p of None \<Rightarrow> '''' | Some c \<Rightarrow> c) @ s @ ''\<newline>'')\<rparr>"

section \<open>The mesh object\<close>

text \<open>
  The attributes of the model object that \<^verbatim>\<open>storage.py\<close> and \<^verbatim>\<open>scene.py\<close> read and
  write.  \<open>rotation\<close> is the per-axis rotation state of the specification.
\<close>

datatype axis = AXIS_X | AXIS_Y | AXIS_Z

record mesh =
  vertices :: "vec3 list"
  normals :: "vec3 list"
  offset_x :: real
  offset_y :: real
  offset_z :: real
  scaling_factor :: real
  rotation :: "axis \<Rightarrow> real"
  modified :: bool
  initialized :: bool
  num_layers_to_draw :: int
  arrows_enabled :: bool

section \<open>storage.py: ModelFile\<close>

record modelfile =
  mf_path :: string
  mf_ftype :: "string option"
  mf_dirname :: "string option"
  mf_basename :: "string option"
  mf_extension :: "string option"
  mf_size :: "nat option"

definition reset_file_attributes :: "modelfile \<Rightarrow> modelfile" where
  "reset_file_attributes mf =
     mf\<lparr>mf_dirname := None, mf_basename := None, mf_extension := None, mf_size := None\<rparr>"

text \<open>\<^verbatim>\<open>ModelFile(path, ftype=None)\<close>.\<close>

definition ModelFile :: "string \<Rightarrow> string option \<Rightarrow> modelfile" where
  "ModelFile p ftype =
     reset_file_attributes
       \<lparr>mf_path = p, mf_ftype = ftype, mf_dirname = None, mf_basename = None,
        mf_extension = None, mf_size = None\<rparr>"

definition set_path :: "modelfile \<Rightarrow> string \<Rightarrow> modelfile" where
  "set_path mf p = (reset_file_attributes mf)\<lparr>mf_path := p\<rparr>"

text \<open>The cached properties return their value and the object with the cache filled.\<close>

definition basename :: "modelfile \<Rightarrow> string \<times> modelfile" where
  "basename mf =
     (case mf_basename mf of
        None \<Rightarrow> (let b = os_path_basename (mf_path mf) in (b, mf\<lparr>mf_basename := Some b\<rparr>))
      | Some b \<Rightarrow> (b, mf))"

definition extension :: "modelfile \<Rightarrow> string \<times> modelfile" where
  "extension mf =
     (case mf_extension mf of
        None \<Rightarrow> (let (b, mf1) = basename mf;
                     e = lower (snd (os_path_splitext b))
                 in (e, mf1\<lparr>mf_extension := Some e\<rparr>))
      | Some e \<Rightarrow> (e, mf))"

definition filetype :: "modelfile \<Rightarrow> (exn + string) \<times> modelfile" where
  "filetype mf =
     (case mf_ftype mf of
        Some t \<Rightarrow> (Inr t, mf)
      | None \<Rightarrow>
          (let (e1, mf1) = extension mf in
           if e1 \<notin> set [''.gcode'', ''.nc'', ''.stl'']
           then (let (e2, mf2) = extension mf1
                 in (Inl (ModelFileError (''Unsupported file extension: '' @ e2)), mf2))
           else (let (e3, mf3) = extension mf1
                 in (Inr (if e3 \<in> set [''.gcode'', ''.nc''] then ''gcode'' else ''stl''), mf3))))"

subsection \<open>Reading\<close>









subsection \<open>Writing\<close>

definition vertex_line :: "vec3 \<Rightarrow> string" where
  "vertex_line v =
     (case v of (v0, v1, v2) \<Rightarrow> ''vertex '' @ fmt6 v0 @ '' '' @ fmt6 v1 @ '' '' @ fmt6 v2)"

definition format_facet :: "vec3 list \<Rightarrow> vec3 \<Rightarrow> string" where
  "format_facet vs normal =
     (case normal of (n0, n1, n2) \<Rightarrow>
        ''facet normal '' @ fmt6 n0 @ '' '' @ fmt6 n1 @ '' '' @ fmt6 n2 @ ''\<newline>''
        @ ''  outer loop\<newline>''
        @ ''    '' @ join ''\<newline>'' (map vertex_line vs) @ ''\<newline>''
        @ ''  endloop\<newline>''
        @ ''endfacet\<newline>'')"

text \<open>One element of the comprehension in \<^verbatim>\<open>write_stl\<close>, at index \<open>i\<close>.\<close>

definition facet_at :: "vec3 list \<Rightarrow> vec3 list \<Rightarrow> nat \<Rightarrow> exn + string" where
  "facet_at vs ns i =
     (case py_index ns i of
        Inl e \<Rightarrow> Inl e
      | Inr n \<Rightarrow> Inr (format_facet (take 3 (drop i vs)) n))"

text \<open>
  \<open>write_stl\<close> returns the exception it raised, if any, the model file (its caches
  filled by \<open>filetype\<close>) and the file system as the call left it.
\<close>

definition write_stl ::
  "world \<Rightarrow> modelfile \<Rightarrow> mesh option \<Rightarrow> exn option \<times> modelfile \<times> world" where
  "write_stl w mf stl_model =
     (case filetype mf of
        (Inl e, mf1) \<Rightarrow> (Some e, mf1, w)
      | (Inr t, mf1) \<Rightarrow>
          if t \<noteq> ''stl'' then (Some AssertionError, mf1, w)
          else
            (case stl_model of
               None \<Rightarrow> (Some (AttributeError ''vertices''), mf1, w)
             | Some m \<Rightarrow>
                 (case open_write w (mf_path mf1) of
                    (Some e, w1) \<Rightarrow> (Some e, mf1, w1)
                  | (None, w1) \<Rightarrow>
                      (let w2 = print_file w1 (mf_path mf1) ''solid'' in
                       case collect (facet_at (vertices m) (normals m))
                              (range3 (length (vertices m))) of
                         Inl e \<Rightarrow> (Some e, mf1, w2)
                       | Inr facets \<Rightarrow>
                           (let w3 = print_file w2 (mf_path mf1) (concat facets);
                                w4 = print_file w3 (mf_path mf1) ''endsolid''
                            in (None, mf1, w4))))))"

section \<open>The model's methods\<close>

text \<open>
  \<^verbatim>\<open>model.py\<close>, \<^verbatim>\<open>stlmodel.py\<close> and \<^verbatim>\<open>views.py\<close> are not among the sources.  The scene
  takes what their methods do as parameters (\<open>collab\<close> below); the definitions of this
  section model the methods the specification describes.
\<close>

text \<open>A fresh \<^verbatim>\<open>StlModel\<close> holding the given buffers.\<close>

definition StlModel :: "vec3 list \<Rightarrow> vec3 list \<Rightarrow> mesh" where
  "StlModel vs ns =
     \<lparr>vertices = vs, normals = ns, offset_x = 0, offset_y = 0, offset_z = 0,
      scaling_factor = 1, rotation = (\<lambda>a. 0), modified = False, initialized = False,
      num_layers_to_draw = 0, arrows_enabled = False\<rparr>"

text \<open>
  Modelled from the spec: \<^verbatim>\<open>Model.load_data\<close> is absent from the sources.  It ingests
  the buffers, fails with \<open>GeometryError\<close> when the vertex count is not a multiple of
  3, and leaves the model unmodified (\<open>modified\<close> false).
\<close>

definition load_data :: "mesh \<Rightarrow> vec3 list \<Rightarrow> vec3 list \<Rightarrow> exn option \<times> mesh" where
  "load_data m vs ns =
     (if length vs mod 3 \<noteq> 0 then (Some (GeometryError ''vertex count''), m)
      else (None, m\<lparr>vertices := vs, normals := ns, modified := False\<rparr>))"

text \<open>
  Modelled from the spec: \<^verbatim>\<open>Model.scale\<close> is absent from the sources.  It multiplies
  \<open>scaling_factor\<close> by the factor and sets \<open>modified\<close>; a factor \<open>\<le> 0\<close> fails with
  \<open>GeometryError\<close> and leaves the mesh as it was.
\<close>

definition scale :: "mesh \<Rightarrow> real \<Rightarrow> exn option \<times> mesh" where
  "scale m factor =
     (if factor \<le> 0 then (Some (GeometryError ''scale factor''), m)
      else (None, m\<lparr>scaling_factor := scaling_factor m * factor, modified := True\<rparr>))"

text \<open>
  Modelled from the spec: \<^verbatim>\<open>Model.translate\<close> is absent from the sources.  It adds to
  the offset and sets \<open>modified\<close>.
\<close>

definition translate :: "mesh \<Rightarrow> real \<Rightarrow> real \<Rightarrow> real \<Rightarrow> exn option \<times> mesh" where
  "translate m dx dy dz =
     (None, m\<lparr>offset_x := offset_x m + dx, offset_y := offset_y m + dy,
               offset_z := offset_z m + dz, modified := True\<rparr>)"

text \<open>
  Modelled from the spec: \<^verbatim>\<open>Model.rotate_rel\<close> and \<^verbatim>\<open>Model.rotate_abs\<close> are absent from
  the sources.  The relative rotation adds to the axis's stored angle, the absolute one
  replaces it and leaves the other axes alone; both set \<open>modified\<close>.
\<close>

definition rotate_rel :: "mesh \<Rightarrow> real \<Rightarrow> axis \<Rightarrow> exn option \<times> mesh" where
  "rotate_rel m angle ax =
     (None, m\<lparr>rotation := (rotation m)(ax := rotation m ax + angle), modified := True\<rparr>)"

definition rotate_abs :: "mesh \<Rightarrow> real \<Rightarrow> axis \<Rightarrow> exn option \<times> mesh" where
  "rotate_abs m angle ax =
     (None, m\<lparr>rotation := (rotation m)(ax := angle), modified := True\<rparr>)"

text \<open>
  Modelled from the spec: \<^verbatim>\<open>Model.init\<close> is absent from the sources.  It prepares the
  render resources once and sets \<open>initialized\<close>.
\<close>

definition model_init :: "mesh \<Rightarrow> exn option \<times> mesh" where
  "model_init m = (None, m\<lparr>initialized := True\<rparr>)"






text \<open>
  The repository's test \<^verbatim>\<open>test_calculate_normals\<close> loads the one-facet fixture below,
  which supplies three normals for its three vertices, and expects of
  \<^verbatim>\<open>calculate_normals\<close> the three vectors of \<open>test_calculate_normals_expected\<close>.
\<close>

definition fixture_vertices :: "vec3 list" where
  "fixture_vertices = [(0, 1 / 2, 0), (1 / 2, - 1 / 2, 0), (- 1 / 2, - 1 / 2, 0)]"

definition fixture_normals :: "vec3 list" where
  "fixture_normals = [(0, 0, 1), (0, 0, 1), (0, 0, 1)]"




section \<open>views.py: the state of a view\<close>

text \<open>
  Modelled from the spec: the view classes are absent from the sources.  Each view
  holds its camera state; \<open>supports_ortho\<close> is the capability flag and \<open>ortho\<close> the
  toggle.
\<close>

record view =
  view_x :: real
  view_y :: real
  view_z :: real
  zoom_factor :: real
  azimuth :: real
  elevation :: real
  supports_ortho :: bool
  ortho :: bool

text \<open>The two view objects a scene owns, by class; \<open>current_view\<close> refers to one.\<close>

datatype view_class = View2D | View3D

section \<open>scene.py: Scene\<close>

text \<open>
  Objects are referred to by address; \<open>heap\<close> holds the state of the model and the
  other actors, so that the model and its entry in \<open>actors\<close> are one object.
\<close>

type_synonym ref = nat

record scene =
  model :: "ref option"
  actors :: "ref list"
  cursor_x :: real
  cursor_y :: real
  view_ortho :: view
  view_perspective :: view
  current_view :: view_class
  scene_initialized :: bool
  heap :: "ref \<Rightarrow> mesh"

text \<open>
  The methods of the absent classes that the scene calls.  A method returns the
  exception it raised, if any, and its object as the call left it; \<open>v_offset\<close> is
  absent (\<open>None\<close>) for a class without the \<^verbatim>\<open>offset\<close> attribute.
\<close>

record collab =
  m_scale :: "mesh \<Rightarrow> real \<Rightarrow> exn option \<times> mesh"
  m_translate :: "mesh \<Rightarrow> real \<Rightarrow> real \<Rightarrow> real \<Rightarrow> exn option \<times> mesh"
  m_rotate_abs :: "mesh \<Rightarrow> real \<Rightarrow> axis \<Rightarrow> exn option \<times> mesh"
  m_init :: "mesh \<Rightarrow> exn option \<times> mesh"
  m_bounding_box :: "mesh \<Rightarrow> exn + vec3 \<times> vec3"
  m_getattr :: "mesh \<Rightarrow> string \<Rightarrow> exn + real"
  letter_axis_map :: "string \<rightharpoonup> axis"
  v_rotate :: "view_class \<Rightarrow> view \<Rightarrow> real \<Rightarrow> real \<Rightarrow> exn option \<times> view"
  v_offset :: "view_class \<Rightarrow> (view \<Rightarrow> real \<Rightarrow> real \<Rightarrow> exn option \<times> view) option"
  v_pan :: "view_class \<Rightarrow> view \<Rightarrow> real \<Rightarrow> real \<Rightarrow> exn option \<times> view"
  v_zoom :: "view_class \<Rightarrow> view \<Rightarrow> real \<Rightarrow> real \<Rightarrow> exn option \<times> view"
  v_reset_state :: "view_class \<Rightarrow> view \<Rightarrow> exn option \<times> view"

definition PAN_SPEED :: real where "PAN_SPEED = 25"

definition ROTATE_SPEED :: real where "ROTATE_SPEED = 25"

text \<open>\<^verbatim>\<open>Scene.__init__\<close>, given the two fresh views and the objects.\<close>

definition Scene :: "view \<Rightarrow> view \<Rightarrow> (ref \<Rightarrow> mesh) \<Rightarrow> scene" where
  "Scene v2 v3 h =
     \<lparr>model = None, actors = [], cursor_x = 0, cursor_y = 0, view_ortho = v2,
      view_perspective = v3, current_view = View3D, scene_initialized = False, heap = h\<rparr>"

definition get_view :: "scene \<Rightarrow> view_class \<Rightarrow> view" where
  "get_view s k = (case k of View2D \<Rightarrow> view_ortho s | View3D \<Rightarrow> view_perspective s)"

definition put_view :: "scene \<Rightarrow> view_class \<Rightarrow> view \<Rightarrow> scene" where
  "put_view s k v = (case k of View2D \<Rightarrow> s\<lparr>view_ortho := v\<rparr> | View3D \<Rightarrow> s\<lparr>view_perspective := v\<rparr>)"

text \<open>A method call on the view object of class \<open>k\<close>, and one on \<^verbatim>\<open>self.model\<close>.\<close>

definition call_view :: "(view \<Rightarrow> exn option \<times> view) \<Rightarrow> view_class \<Rightarrow> scene \<Rightarrow> exn option \<times> scene" where
  "call_view f k s = (case f (get_view s k) of (e, v) \<Rightarrow> (e, put_view s k v))"

definition call_model :: "(mesh \<Rightarrow> exn option \<times> mesh) \<Rightarrow> scene \<Rightarrow> exn option \<times> scene" where
  "call_model f s =
     (case model s of
        None \<Rightarrow> (Some (AttributeError ''NoneType''), s)
      | Some r \<Rightarrow> (case f (heap s r) of (e, m) \<Rightarrow> (e, s\<lparr>heap := (heap s)(r := m)\<rparr>)))"

definition add_model :: "scene \<Rightarrow> ref \<Rightarrow> scene" where
  "add_model s m = s\<lparr>model := Some m, actors := actors s @ [m]\<rparr>"

definition export_to_file ::
  "world \<Rightarrow> modelfile \<Rightarrow> scene \<Rightarrow> exn option \<times> modelfile \<times> world \<times> scene" where
  "export_to_file w model_file s =
     (case write_stl w model_file (map_option (heap s) (model s)) of
        (Some e, mf1, w1) \<Rightarrow> (Some e, mf1, w1, s)
      | (None, mf1, w1) \<Rightarrow>
          (case call_model (\<lambda>m. (None, m\<lparr>modified := False\<rparr>)) s of
             (e, s1) \<Rightarrow> (e, mf1, w1, s1)))"

definition add_supporting_actor :: "scene \<Rightarrow> ref \<Rightarrow> scene" where
  "add_supporting_actor s actor = s\<lparr>actors := actors s @ [actor]\<rparr>"

definition clear :: "scene \<Rightarrow> scene" where
  "clear s = s\<lparr>actors := []\<rparr>"

fun init_actors_loop :: "collab \<Rightarrow> ref list \<Rightarrow> scene \<Rightarrow> exn option \<times> scene" where
  "init_actors_loop C [] s = (None, s)"
| "init_actors_loop C (actor # rest) s =
     (if \<not> initialized (heap s actor)
      then (case m_init C (heap s actor) of
              (Some e, m) \<Rightarrow> (Some e, s\<lparr>heap := (heap s)(actor := m)\<rparr>)
            | (None, m) \<Rightarrow> init_actors_loop C rest (s\<lparr>heap := (heap s)(actor := m)\<rparr>))
      else init_actors_loop C rest s)"

definition init_actors :: "collab \<Rightarrow> scene \<Rightarrow> exn option \<times> scene" where
  "init_actors C s = init_actors_loop C (actors s) s"

definition init :: "collab \<Rightarrow> scene \<Rightarrow> exn option \<times> scene" where
  "init C s =
     (case init_actors C s of
        (Some e, s1) \<Rightarrow> (Some e, s1)
      | (None, s1) \<Rightarrow> (None, s1\<lparr>scene_initialized := True\<rparr>))"

definition mode_2d :: "scene \<Rightarrow> bool" where
  "mode_2d s = (current_view s = View2D)"

definition set_mode_2d :: "scene \<Rightarrow> bool \<Rightarrow> scene" where
  "set_mode_2d s v = s\<lparr>current_view := (if v then View2D else View3D)\<rparr>"

definition mode_ortho :: "scene \<Rightarrow> bool" where
  "mode_ortho s =
     (supports_ortho (get_view s (current_view s)) \<and> ortho (get_view s (current_view s)))"

definition set_mode_ortho :: "scene \<Rightarrow> bool \<Rightarrow> scene" where
  "set_mode_ortho s v =
     (if supports_ortho (get_view s (current_view s))
      then put_view s (current_view s) ((get_view s (current_view s))\<lparr>ortho := v\<rparr>)
      else s)"

text \<open>\<^verbatim>\<open>math.atan2\<close>, \<^verbatim>\<open>math.degrees\<close>, \<^verbatim>\<open>math.radians\<close>.\<close>

definition atan2 :: "real \<Rightarrow> real \<Rightarrow> real" where
  "atan2 y x =
     (if 0 < x then arctan (y / x)
      else if x < 0 \<and> 0 \<le> y then arctan (y / x) + pi
      else if x < 0 then arctan (y / x) - pi
      else if 0 < y then pi / 2
      else if y < 0 then - pi / 2
      else 0)"

definition degrees :: "real \<Rightarrow> real" where
  "degrees x = x * 180 / pi"

definition radians :: "real \<Rightarrow> real" where
  "radians x = x * pi / 180"

text \<open>
  \<open>display\<close> returns the keyword arguments of the \<^verbatim>\<open>actor.display\<close> call it makes for
  each actor, in order; the OpenGL calls around them are not part of the state.
\<close>

datatype display_call =
    Display_elevation real bool bool
  | Display_eye_height real bool bool

definition display :: "scene \<Rightarrow> exn + (ref \<times> display_call) list" where
  "display s =
     (let cv = get_view s (current_view s) in
      if mode_ortho s
      then Inr (map (\<lambda>actor. (actor, Display_elevation (- elevation cv) (mode_ortho s) (mode_2d s)))
                  (actors s))
      else if zoom_factor cv = 0 then Inl ZeroDivisionError
      else (let y = view_y cv / zoom_factor cv;
                z = view_z cv;
                angle = - degrees (atan2 z y) - elevation cv;
                eye_height = sqrt (y\<^sup>2 + z\<^sup>2) * sin (radians angle)
            in Inr (map (\<lambda>actor. (actor, Display_eye_height eye_height (mode_ortho s) (mode_2d s)))
                      (actors s))))"

definition button_press :: "scene \<Rightarrow> real \<Rightarrow> real \<Rightarrow> scene" where
  "button_press s x y = s\<lparr>cursor_x := x, cursor_y := y\<rparr>"

definition button_motion ::
  "collab \<Rightarrow> scene \<Rightarrow> real \<Rightarrow> real \<Rightarrow> bool \<Rightarrow> bool \<Rightarrow> bool \<Rightarrow> exn option \<times> scene" where
  "button_motion C s x y left middle right =
     (let delta_x = x - cursor_x s;
          delta_y = y - cursor_y s;
          k = current_view s;
          (e, s1) =
            (if left
             then call_view (\<lambda>v. v_rotate C k v (delta_x * ROTATE_SPEED / 100)
                                     (delta_y * ROTATE_SPEED / 100)) k s
             else if middle
             then (case v_offset C k of
                     Some offset \<Rightarrow>
                       call_view (\<lambda>v. offset v (delta_x * PAN_SPEED / 100)
                                         (delta_y * PAN_SPEED / 100)) k s
                   | None \<Rightarrow> (None, s))
             else if right
             then call_view (\<lambda>v. v_pan C k v (delta_x * PAN_SPEED / 100)
                                     (delta_y * PAN_SPEED / 100)) k s
             else (None, s))
      in case e of
           Some ex \<Rightarrow> (Some ex, s1)
         | None \<Rightarrow> (None, s1\<lparr>cursor_x := x, cursor_y := y\<rparr>))"

definition wheel_scroll :: "collab \<Rightarrow> scene \<Rightarrow> real \<Rightarrow> exn option \<times> scene" where
  "wheel_scroll C s direction =
     (let delta_y = (if direction < 0 then - 1 else 1) * 30
      in call_view (\<lambda>v. v_zoom C (current_view s) v 0 delta_y) (current_view s) s)"

definition reset_view :: "collab \<Rightarrow> scene \<Rightarrow> bool \<Rightarrow> exn option \<times> scene" where
  "reset_view C s both =
     (if both
      then (case call_view (v_reset_state C View2D) View2D s of
              (Some e, s1) \<Rightarrow> (Some e, s1)
            | (None, s1) \<Rightarrow> call_view (v_reset_state C View3D) View3D s1)
      else call_view (v_reset_state C (current_view s)) (current_view s) s)"

definition rotate_view :: "scene \<Rightarrow> real \<Rightarrow> real \<Rightarrow> scene" where
  "rotate_view s az el =
     (if \<not> mode_2d s
      then put_view s (current_view s)
             ((get_view s (current_view s))\<lparr>azimuth := az, elevation := el\<rparr>)
      else s)"

definition view_model_center :: "collab \<Rightarrow> scene \<Rightarrow> exn option \<times> scene" where
  "view_model_center C s =
     (case model s of
        None \<Rightarrow> (Some (AttributeError ''NoneType''), s)
      | Some r \<Rightarrow>
          (case m_bounding_box C (heap s r) of
             Inl e \<Rightarrow> (Some e, s)
           | Inr (lower_corner, upper_corner) \<Rightarrow>
               (case lower_corner of (l0, l1, l2) \<Rightarrow> case upper_corner of (u0, u1, u2) \<Rightarrow>
                  (None, s\<lparr>heap := (heap s)(r := (heap s r)
                     \<lparr>offset_x := - (u0 + l0) / 2, offset_y := - (u1 + l1) / 2,
                      offset_z := - l2\<rparr>)\<rparr>))))"

definition change_num_layers :: "scene \<Rightarrow> int \<Rightarrow> exn option \<times> scene" where
  "change_num_layers s number = call_model (\<lambda>m. (None, m\<lparr>num_layers_to_draw := number\<rparr>)) s"

definition scale_model :: "collab \<Rightarrow> scene \<Rightarrow> real \<Rightarrow> exn option \<times> scene" where
  "scale_model C s factor =
     (case call_model (\<lambda>m. m_scale C m factor) s of
        (Some e, s1) \<Rightarrow> (Some e, s1)
      | (None, s1) \<Rightarrow> call_model (m_init C) s1)"

definition center_model :: "collab \<Rightarrow> scene \<Rightarrow> exn option \<times> scene" where
  "center_model C s =
     (case model s of
        None \<Rightarrow> (Some (AttributeError ''NoneType''), s)
      | Some r \<Rightarrow>
          (case m_bounding_box C (heap s r) of
             Inl e \<Rightarrow> (Some e, s)
           | Inr (lower_corner, upper_corner) \<Rightarrow>
               (case lower_corner of (l0, l1, l2) \<Rightarrow> case upper_corner of (u0, u1, u2) \<Rightarrow>
                  (case call_model (\<lambda>m. m_translate C m (- (u0 + l0) / 2) (- (u1 + l1) / 2) (- l2)) s of
                     (Some e, s1) \<Rightarrow> (Some e, s1)
                   | (None, s1) \<Rightarrow> call_model (m_init C) s1))))"

definition change_model_dimension :: "collab \<Rightarrow> scene \<Rightarrow> string \<Rightarrow> real \<Rightarrow> exn option \<times> scene" where
  "change_model_dimension C s dimension val =
     (case model s of
        None \<Rightarrow> (Some (AttributeError ''NoneType''), s)
      | Some r \<Rightarrow>
          (case m_getattr C (heap s r) dimension of
             Inl e \<Rightarrow> (Some e, s)
           | Inr current_value \<Rightarrow>
               if current_value = 0 then (Some ZeroDivisionError, s)
               else (let factor = (val / current_value) * scaling_factor (heap s r)
                     in scale_model C s factor)))"

definition rotate_model :: "collab \<Rightarrow> scene \<Rightarrow> real \<Rightarrow> string \<Rightarrow> exn option \<times> scene" where
  "rotate_model C s angle axis_name =
     (case letter_axis_map C axis_name of
        None \<Rightarrow> (Some (KeyError axis_name), s)
      | Some ax \<Rightarrow>
          (case call_model (\<lambda>m. m_rotate_abs C m angle ax) s of
             (Some e, s1) \<Rightarrow> (Some e, s1)
           | (None, s1) \<Rightarrow> call_model (m_init C) s1))"

definition show_arrows :: "collab \<Rightarrow> scene \<Rightarrow> bool \<Rightarrow> exn option \<times> scene" where
  "show_arrows C s sh =
     (case call_model (\<lambda>m. (None, m\<lparr>arrows_enabled := sh\<rparr>)) s of
        (Some e, s1) \<Rightarrow> (Some e, s1)
      | (None, s1) \<Rightarrow> call_model (m_init C) s1)"

definition model_modified :: "scene \<Rightarrow> bool" where
  "model_modified s = (case model s of None \<Rightarrow> False | Some r \<Rightarrow> modified (heap s r))"

subsection \<open>The operations of a scene, as a caller issues them\<close>

text \<open>
  One constructor for each method of \<^verbatim>\<open>Scene\<close>.  \<open>run_op\<close> runs one call on the file
  system and the scene; a caller that catches the exception goes on with the state
  the call left, which is what \<open>run_ops\<close> does.
\<close>

datatype scene_op =
    Add_model ref
  | Export_to_file modelfile
  | Add_supporting_actor ref
  | Clear
  | Init
  | Init_actors
  | Display
  | Reshape
  | Draw_axes
  | Button_press real real
  | Button_motion real real bool bool bool
  | Wheel_scroll real
  | Reset_view bool
  | Set_mode_2d bool
  | Set_mode_ortho bool
  | Rotate_view real real
  | View_model_center
  | Change_num_layers int
  | Scale_model real
  | Center_model
  | Change_model_dimension string real
  | Rotate_model real string
  | Show_arrows bool

fun run_op :: "collab \<Rightarrow> world \<times> scene \<Rightarrow> scene_op \<Rightarrow> exn option \<times> world \<times> scene" where
  "run_op C (w, s) (Add_model m) = (None, w, add_model s m)"
| "run_op C (w, s) (Export_to_file mf) =
     (case export_to_file w mf s of (e, mf1, w1, s1) \<Rightarrow> (e, w1, s1))"
| "run_op C (w, s) (Add_supporting_actor a) = (None, w, add_supporting_actor s a)"
| "run_op C (w, s) Clear = (None, w, clear s)"
| "run_op C (w, s) Init = (case init C s of (e, s1) \<Rightarrow> (e, w, s1))"
| "run_op C (w, s) Init_actors = (case init_actors C s of (e, s1) \<Rightarrow> (e, w, s1))"
| "run_op C (w, s) Display = (case display s of Inl e \<Rightarrow> (Some e, w, s) | Inr calls \<Rightarrow> (None, w, s))"
| "run_op C (w, s) Reshape = (None, w, s)"
| "run_op C (w, s) Draw_axes = (None, w, s)"
| "run_op C (w, s) (Button_press x y) = (None, w, button_press s x y)"
| "run_op C (w, s) (Button_motion x y l m r) =
     (case button_motion C s x y l m r of (e, s1) \<Rightarrow> (e, w, s1))"
| "run_op C (w, s) (Wheel_scroll d) = (case wheel_scroll C s d of (e, s1) \<Rightarrow> (e, w, s1))"
| "run_op C (w, s) (Reset_view both) = (case reset_view C s both of (e, s1) \<Rightarrow> (e, w, s1))"
| "run_op C (w, s) (Set_mode_2d v) = (None, w, set_mode_2d s v)"
| "run_op C (w, s) (Set_mode_ortho v) = (None, w, set_mode_ortho s v)"
| "run_op C (w, s) (Rotate_view az el) = (None, w, rotate_view s az el)"
| "run_op C (w, s) View_model_center = (case view_model_center C s of (e, s1) \<Rightarrow> (e, w, s1))"
| "run_op C (w, s) (Change_num_layers n) = (case change_num_layers s n of (e, s1) \<Rightarrow> (e, w, s1))"
| "run_op C (w, s) (Scale_model f) = (case scale_model C s f of (e, s1) \<Rightarrow> (e, w, s1))"
| "run_op C (w, s) Center_model = (case center_model C s of (e, s1) \<Rightarrow> (e, w, s1))"
| "run_op C (w, s) (Change_model_dimension d v) =
     (case change_model_dimension C s d v of (e, s1) \<Rightarrow> (e, w, s1))"
| "run_op C (w, s) (Rotate_model a n) = (case rotate_model C s a n of (e, s1) \<Rightarrow> (e, w, s1))"
| "run_op C (w, s) (Show_arrows sh) = (case show_arrows C s sh of (e, s1) \<Rightarrow> (e, w, s1))"

fun run_ops :: "collab \<Rightarrow> world \<times> scene \<Rightarrow> scene_op list \<Rightarrow> world \<times> scene" where
  "run_ops C st [] = st"
| "run_ops C st (op # ops) = run_ops C (snd (run_op C st op)) ops"

subsection \<open>The events that bear on the modified flag\<close>

text \<open>
  The four transforms of the model (the methods modelled above) and the export of the
  scene's model, on the scene that holds it.
\<close>

datatype model_event =
    Ev_scale real
  | Ev_translate real real real
  | Ev_rotate_rel real axis
  | Ev_rotate_abs real axis
  | Ev_export_to_file modelfile

fun apply_event :: "world \<times> scene \<Rightarrow> model_event \<Rightarrow> exn option \<times> world \<times> scene" where
  "apply_event (w, s) (Ev_scale f) =
     (case call_model (\<lambda>m. scale m f) s of (e, s1) \<Rightarrow> (e, w, s1))"
| "apply_event (w, s) (Ev_translate dx dy dz) =
     (case call_model (\<lambda>m. translate m dx dy dz) s of (e, s1) \<Rightarrow> (e, w, s1))"
| "apply_event (w, s) (Ev_rotate_rel a ax) =
     (case call_model (\<lambda>m. rotate_rel m a ax) s of (e, s1) \<Rightarrow> (e, w, s1))"
| "apply_event (w, s) (Ev_rotate_abs a ax) =
     (case call_model (\<lambda>m. rotate_abs m a ax) s of (e, s1) \<Rightarrow> (e, w, s1))"
| "apply_event (w, s) (Ev_export_to_file mf) =
     (case export_to_file w mf s of (e, mf1, w1, s1) \<Rightarrow> (e, w1, s1))"

subsection \<open>Concrete collaborators and states, for evaluation\<close>

definition empty_world :: world where
  "empty_world = \<lparr>files = Map.empty, open_error = (\<lambda>p. None)\<rparr>"



definition still_view :: "bool \<Rightarrow> view" where
  "still_view so =
     \<lparr>view_x = 0, view_y = 0, view_z = 0, zoom_factor = 1, azimuth = 0, elevation = 0,
      supports_ortho = so, ortho = False\<rparr>"

text \<open>
  A collaborator record built from the modelled methods: the model's methods as above,
  the dimensions \<^verbatim>\<open>width\<close>, \<^verbatim>\<open>depth\<close> and \<^verbatim>\<open>height\<close> as the scaled extent of the
  vertices along each axis, a fixed bounding box, and views whose gestures add the deltas
  to the camera state.
\<close>

definition extent :: "real list \<Rightarrow> real" where
  "extent xs = (case xs of [] \<Rightarrow> 0 | x # rest \<Rightarrow> fold max rest x - fold min rest x)"

definition model_collab :: collab where
  "model_collab =
     \<lparr>m_scale = scale, m_translate = translate, m_rotate_abs = rotate_abs,
      m_init = model_init,
      m_bounding_box = (\<lambda>m. Inr ((0, 0, 0), (1, 1, 1))),
      m_getattr = (\<lambda>m d.
         if d = ''width'' then Inr (extent (map fst (vertices m)) * scaling_factor m)
         else if d = ''depth'' then Inr (extent (map (fst \<circ> snd) (vertices m)) * scaling_factor m)
         else if d = ''height'' then Inr (extent (map (snd \<circ> snd) (vertices m)) * scaling_factor m)
         else Inl (AttributeError d)),
      letter_axis_map = [''x'' \<mapsto> AXIS_X, ''y'' \<mapsto> AXIS_Y, ''z'' \<mapsto> AXIS_Z],
      v_rotate = (\<lambda>k v a e. (None, v\<lparr>azimuth := azimuth v + a, elevation := elevation v + e\<rparr>)),
      v_offset = (\<lambda>k. None),
      v_pan = (\<lambda>k v dx dy. (None, v\<lparr>view_x := view_x v + dx, view_z := view_z v + dy\<rparr>)),
      v_zoom = (\<lambda>k v dx dy. (None, v\<lparr>zoom_factor := zoom_factor v + dy\<rparr>)),
      v_reset_state = (\<lambda>k v. (None, still_view (k = View3D)))\<rparr>"

definition fixture_scene :: scene where
  "fixture_scene =
     add_model (Scene (still_view False) (still_view True)
                  (\<lambda>r. StlModel fixture_vertices fixture_normals)) 0"

text \<open>The fixture scene after \<^verbatim>\<open>model.scale(1.1)\<close>, as in the repository's test.\<close>

definition scaled_scene :: scene where
  "scaled_scene = snd (call_model (\<lambda>m. scale m (11 / 10)) fixture_scene)"

text \<open>The fixture scene with the camera of the 3D view at \<open>y = 100\<close>, \<open>z = 50\<close>.\<close>

definition camera_scene :: scene where
  "camera_scene = fixture_scene\<lparr>view_perspective := (still_view True)\<lparr>view_y := 100, view_z := 50\<rparr>\<rparr>"

section \<open>Evaluation rules\<close>

lemma str_nat_numeral [simp]:
  "str_nat (numeral k) =
     (if (numeral k :: nat) < 10 then [digit_char (numeral k)]
      else str_nat (numeral k div 10) @ [digit_char (numeral k mod 10)])"
  "str_nat 0 = ''0''" "str_nat 1 = ''1''" "str_nat (Suc 0) = ''1''"
  by (simp_all add: str_nat.simps [of "numeral k"] str_nat.simps [of 0] str_nat.simps [of 1]
        str_nat.simps [of "Suc 0"] digit_char_def)

lemmas fmt6_eval = fmt6_def round_half_even_def digit_char_def

lemmas path_eval =
  os_path_basename_def os_path_splitext_def rfind_def splitext_scan.simps lower_def
  lower_char_def char_of_eq_iff

lemmas filetype_eval =
  filetype_def ModelFile_def reset_file_attributes_def extension_def basename_def Let_def

section \<open>Paths and extensions\<close>

lemma lower_char_eq_iff:
  assumes "of_char k < (65::nat) \<or> (90::nat) < of_char k"
    and "of_char k < (97::nat) \<or> (122::nat) < of_char k"
  shows "lower_char c = k \<longleftrightarrow> c = k"
proof
  assume "c = k"
  with assms show "lower_char c = k" by (auto simp: lower_char_def Let_def)
next
  assume h: "lower_char c = k"
  show "c = k"
  proof (cases "65 \<le> (of_char c :: nat) \<and> (of_char c :: nat) \<le> 90")
    case True
    with h have "char_of (of_char c + 32 :: nat) = k" by (simp add: lower_char_def Let_def)
    then have "(of_char k :: nat) = (of_char c + 32) mod 256" by auto
    with True assms show ?thesis by auto
  next
    case False
    with h show ?thesis by (auto simp: lower_char_def Let_def)
  qed
qed

lemma lower_char_dot [simp]: "lower_char c = CHR ''.'' \<longleftrightarrow> c = CHR ''.''"
  by (rule lower_char_eq_iff) simp_all

lemma lower_char_slash [simp]: "lower_char c = CHR ''/'' \<longleftrightarrow> c = CHR ''/''"
  by (rule lower_char_eq_iff) simp_all

lemma lower_mem_dot: "CHR ''.'' \<in> set (lower e) \<longleftrightarrow> CHR ''.'' \<in> set e"
proof -
  have "\<And>x. (CHR ''.'' = lower_char x) \<longleftrightarrow> (x = CHR ''.'')"
    using lower_char_dot by metis
  then show ?thesis by (induction e) (auto simp: lower_def)
qed

lemma lower_mem_slash: "CHR ''/'' \<in> set (lower e) \<longleftrightarrow> CHR ''/'' \<in> set e"
proof -
  have "\<And>x. (CHR ''/'' = lower_char x) \<longleftrightarrow> (x = CHR ''/'')"
    using lower_char_slash by metis
  then show ?thesis by (induction e) (auto simp: lower_def)
qed

lemma rfind_absent: "c \<notin> set s \<Longrightarrow> rfind s c = - 1"
  by (simp add: rfind_def)

lemma rfind_last: "c \<notin> set t \<Longrightarrow> rfind (s @ c # t) c = int (length s)"
proof -
  assume a: "c \<notin> set t"
  have "takeWhile (\<lambda>x. x \<noteq> c) (rev t @ c # rev s) = rev t"
    using a by (auto simp: takeWhile_tail)
  then show ?thesis by (simp add: rfind_def)
qed

lemma basename_append:
  assumes "CHR ''/'' \<notin> set t"
  shows "os_path_basename (s @ t) = os_path_basename s @ t"
proof (cases "CHR ''/'' \<in> set s")
  case True
  then obtain s1 s2 where s: "s = s1 @ CHR ''/'' # s2" "CHR ''/'' \<notin> set s2"
    by (meson split_list_last)
  have 1: "rfind (s1 @ CHR ''/'' # (s2 @ t)) (CHR ''/'') = int (length s1)"
    using s assms by (intro rfind_last) simp
  have 2: "rfind (s1 @ CHR ''/'' # s2) (CHR ''/'') = int (length s1)"
    using s by (intro rfind_last) simp
  show ?thesis using 1 2 s by (simp add: os_path_basename_def nat_add_distrib)
next
  case False
  with assms show ?thesis by (simp add: os_path_basename_def rfind_absent)
qed

lemma basename_no_sep: "CHR ''/'' \<notin> set (os_path_basename p)"
proof (cases "CHR ''/'' \<in> set p")
  case True
  then obtain s1 s2 where s: "p = s1 @ CHR ''/'' # s2" "CHR ''/'' \<notin> set s2"
    by (meson split_list_last)
  have "rfind (s1 @ CHR ''/'' # s2) (CHR ''/'') = int (length s1)"
    using s by (intro rfind_last) simp
  with s show ?thesis by (simp add: os_path_basename_def nat_add_distrib)
next
  case False
  then show ?thesis by (simp add: os_path_basename_def rfind_absent)
qed

lemma splitext_scan_found:
  "fi \<le> i \<Longrightarrow> i < d \<Longrightarrow> i < length p \<Longrightarrow> p ! i \<noteq> CHR ''.'' \<Longrightarrow>
   splitext_scan p fi d = Some (take d p, drop d p)"
proof (induction p fi d rule: splitext_scan.induct)
  case (1 p fi d)
  show ?case
  proof (cases "take 1 (drop fi p) \<noteq> ''.''")
    case True
    with 1 show ?thesis by (simp add: splitext_scan.simps [of p fi d])
  next
    case False
    then have "fi \<noteq> i" using 1(4,5)
      by (auto simp: take_Suc_conv_app_nth hd_drop_conv_nth)
    with 1 False show ?thesis by (simp add: splitext_scan.simps [of p fi d])
  qed
qed

lemma splitext_ext:
  assumes "CHR ''/'' \<notin> set stem" "CHR ''/'' \<notin> set rest" "CHR ''.'' \<notin> set rest"
    and "c \<in> set stem" "c \<noteq> CHR ''.''"
  shows "os_path_splitext (stem @ CHR ''.'' # rest) = (stem, CHR ''.'' # rest)"
proof -
  let ?p = "stem @ CHR ''.'' # rest"
  have sep: "rfind ?p (CHR ''/'') = - 1" using assms by (intro rfind_absent) simp
  have dot: "rfind ?p (CHR ''.'') = int (length stem)" using assms by (intro rfind_last) simp
  obtain i where i: "i < length stem" "stem ! i = c"
    using assms(4) by (auto simp: in_set_conv_nth)
  have "splitext_scan ?p 0 (length stem) = Some (take (length stem) ?p, drop (length stem) ?p)"
    using i assms(5) by (intro splitext_scan_found [where i = i]) (auto simp: nth_append)
  then show ?thesis by (simp add: os_path_splitext_def sep dot)
qed

lemma lower_ext_shape:
  assumes "lower e = CHR ''.'' # l" "CHR ''.'' \<notin> set l" "CHR ''/'' \<notin> set l"
  shows "\<exists>rest. e = CHR ''.'' # rest \<and> CHR ''.'' \<notin> set rest \<and> CHR ''/'' \<notin> set rest"
proof -
  from assms(1) obtain a rest where e: "e = a # rest" "lower_char a = CHR ''.''" "lower rest = l"
    by (auto simp: lower_def)
  with assms show ?thesis using lower_mem_dot [of rest] lower_mem_slash [of rest] by auto
qed

lemma splitext_basename_path:
  assumes "c \<noteq> CHR ''.''" "c \<noteq> CHR ''/''" "CHR ''/'' \<notin> set mid"
    and "lower e = CHR ''.'' # l" "CHR ''.'' \<notin> set l" "CHR ''/'' \<notin> set l"
  shows "snd (os_path_splitext (os_path_basename (pre @ c # mid @ e))) = e"
proof -
  from lower_ext_shape [OF assms(4-6)] obtain rest where
    e: "e = CHR ''.'' # rest" "CHR ''.'' \<notin> set rest" "CHR ''/'' \<notin> set rest" by blast
  have "os_path_basename (pre @ (c # mid @ e)) = os_path_basename pre @ (c # mid @ e)"
    using assms e by (intro basename_append) auto
  then have b: "os_path_basename (pre @ c # mid @ e)
      = (os_path_basename pre @ c # mid) @ CHR ''.'' # rest"
    using e by simp
  have "os_path_splitext ((os_path_basename pre @ c # mid) @ CHR ''.'' # rest)
        = (os_path_basename pre @ c # mid, CHR ''.'' # rest)"
    using assms e basename_no_sep [of pre] by (intro splitext_ext [where c = c]) auto
  with b e show ?thesis by simp
qed

lemma extension_fresh:
  "fst (extension (ModelFile p None)) = lower (snd (os_path_splitext (os_path_basename p)))"
  by (simp add: filetype_eval)

lemma filetype_fresh:
  "fst (filetype (ModelFile p None)) =
     (let e = lower (snd (os_path_splitext (os_path_basename p))) in
      if e \<notin> set [''.gcode'', ''.nc'', ''.stl'']
      then Inl (ModelFileError (''Unsupported file extension: '' @ e))
      else Inr (if e \<in> set [''.gcode'', ''.nc''] then ''gcode'' else ''stl''))"
  by (simp add: filetype_eval)

lemma filetype_path: "mf_path (snd (filetype mf)) = mf_path mf"
  by (auto simp: filetype_def extension_def basename_def Let_def split: option.splits prod.splits)

lemma filetype_ftype: "mf_ftype (snd (filetype mf)) = mf_ftype mf"
  by (auto simp: filetype_def extension_def basename_def Let_def split: option.splits prod.splits)

section \<open>C4: the error of an unsupported extension\<close>

text \<open>
  C4, as stated, fails: for the path \<^verbatim>\<open>notes.txt\<close>, whose extension is none of the three,
  \<open>filetype\<close> raises \<open>ModelFileError\<close>, the very kind the claim excludes.
\<close>

theorem filetype_unsupported_kind_counterexample:
  "fst (extension (ModelFile ''notes.txt'' None)) = ''.txt''
   \<and> ''.txt'' \<notin> set [''.gcode'', ''.nc'', ''.stl'']
   \<and> fst (filetype (ModelFile ''notes.txt'' None))
       = Inl (ModelFileError ''Unsupported file extension: .txt'')"
  by (simp add: filetype_fresh extension_fresh path_eval)

text \<open>
  C4, amended: for every ModelFile constructed without a filetype override whose
  lower-cased extension is not one of \<^verbatim>\<open>.gcode\<close>, \<^verbatim>\<open>.nc\<close>, \<^verbatim>\<open>.stl\<close>, accessing \<open>filetype\<close>
  fails with \<open>ModelFileError\<close>, whose message is \<^verbatim>\<open>Unsupported file extension: \<close> followed
  by that extension.
\<close>

theorem filetype_unsupported_extension:
  "fst (extension (ModelFile p None)) \<notin> set [''.gcode'', ''.nc'', ''.stl'']
   \<Longrightarrow> fst (filetype (ModelFile p None))
       = Inl (ModelFileError (''Unsupported file extension: ''
                                @ fst (extension (ModelFile p None))))"
  by (simp add: filetype_fresh extension_fresh Let_def)

theorem filetype_unsupported_extension_witness:
  "fst (extension (ModelFile ''/srv/models/cube.OBJ'' None)) = ''.obj''
   \<and> fst (filetype (ModelFile ''/srv/models/cube.OBJ'' None))
       = Inl (ModelFileError ''Unsupported file extension: .obj'')"
proof -
  have e: "fst (extension (ModelFile ''/srv/models/cube.OBJ'' None)) = ''.obj''"
    by (simp add: extension_fresh path_eval)
  have "fst (extension (ModelFile ''/srv/models/cube.OBJ'' None))
          \<notin> set [''.gcode'', ''.nc'', ''.stl'']"
    by (simp add: e)
  from filetype_unsupported_extension [OF this] e show ?thesis by simp
qed

section \<open>C5: the resolution of the file type\<close>

text \<open>
  C5, as stated, fails: the path \<^verbatim>\<open>/tmp/.stl\<close> ends in \<^verbatim>\<open>.stl\<close>, but
  \<^verbatim>\<open>os.path.splitext\<close> takes the leading dot of the last component for a part of the
  name, the extension is empty and \<open>filetype\<close> raises.
\<close>

theorem filetype_leading_dot_counterexample:
  "fst (filetype (ModelFile ''/tmp/.stl'' None))
     = Inl (ModelFileError ''Unsupported file extension: '')"
  by (simp add: filetype_fresh path_eval)

text \<open>
  C5, amended: with an explicit override, \<open>filetype\<close> returns the override whatever the
  path.  Without one, every path whose last component has a character other than a dot
  before its final \<^verbatim>\<open>.gcode\<close> or \<^verbatim>\<open>.nc\<close> (in any letter case) yields \<^verbatim>\<open>gcode\<close>, and every
  such path with a final \<^verbatim>\<open>.stl\<close> (in any letter case) yields \<^verbatim>\<open>stl\<close>.  The path is
  \<open>pre @ c # mid @ e\<close>: \<open>e\<close> the extension, \<open>c\<close> the character that is neither a dot nor
  a separator, \<open>mid\<close> free of separators.
\<close>

theorem filetype_resolution:
  "fst (filetype (ModelFile p (Some t))) = Inr t
   \<and> (c \<noteq> CHR ''.'' \<and> c \<noteq> CHR ''/'' \<and> CHR ''/'' \<notin> set mid \<longrightarrow>
        (lower e \<in> {''.gcode'', ''.nc''} \<longrightarrow>
           fst (filetype (ModelFile (pre @ c # mid @ e) None)) = Inr ''gcode'')
      \<and> (lower e = ''.stl'' \<longrightarrow>
           fst (filetype (ModelFile (pre @ c # mid @ e) None)) = Inr ''stl''))"
proof (intro conjI impI)
  show "fst (filetype (ModelFile p (Some t))) = Inr t"
    by (simp add: filetype_def ModelFile_def reset_file_attributes_def)
next
  assume h: "c \<noteq> CHR ''.'' \<and> c \<noteq> CHR ''/'' \<and> CHR ''/'' \<notin> set mid"
    and l: "lower e \<in> {''.gcode'', ''.nc''}"
  then have "snd (os_path_splitext (os_path_basename (pre @ c # mid @ e))) = e"
    by (auto intro!: splitext_basename_path)
  with l show "fst (filetype (ModelFile (pre @ c # mid @ e) None)) = Inr ''gcode''"
    by (auto simp: filetype_fresh)
next
  assume h: "c \<noteq> CHR ''.'' \<and> c \<noteq> CHR ''/'' \<and> CHR ''/'' \<notin> set mid"
    and l: "lower e = ''.stl''"
  then have "snd (os_path_splitext (os_path_basename (pre @ c # mid @ e))) = e"
    by (auto intro!: splitext_basename_path)
  with l show "fst (filetype (ModelFile (pre @ c # mid @ e) None)) = Inr ''stl''"
    by (simp add: filetype_fresh)
qed

theorem filetype_resolution_witness:
  "fst (filetype (ModelFile ''notes.txt'' (Some ''stl''))) = Inr ''stl''
   \<and> fst (filetype (ModelFile ''job.NC'' None)) = Inr ''gcode''
   \<and> fst (filetype (ModelFile ''out/job.gcode'' None)) = Inr ''gcode''
   \<and> fst (filetype (ModelFile ''part.STL'' None)) = Inr ''stl''"
proof -
  have l1: "lower ''.NC'' = ''.nc''"
    and l2: "lower ''.gcode'' = ''.gcode''"
    and l3: "lower ''.STL'' = ''.stl''"
    by (simp_all add: lower_def lower_char_def char_of_eq_iff)
  have a: "fst (filetype (ModelFile ''notes.txt'' (Some ''stl''))) = Inr ''stl''
      \<and> fst (filetype (ModelFile ''job.NC'' None)) = Inr ''gcode''"
    using filetype_resolution [of "''notes.txt''" "''stl''" "CHR ''j''" "''ob''" "''.NC''" "[]"]
    by (simp add: l1)
  have b: "fst (filetype (ModelFile ''out/job.gcode'' None)) = Inr ''gcode''"
    using filetype_resolution [of "''notes.txt''" "''stl''" "CHR ''j''" "''ob''" "''.gcode''" "''out/''"]
    by (simp add: l2)
  have c: "fst (filetype (ModelFile ''part.STL'' None)) = Inr ''stl''"
    using filetype_resolution [of "''notes.txt''" "''stl''" "CHR ''p''" "''art''" "''.STL''" "[]"]
    by (simp add: l3)
  from a b c show ?thesis by simp
qed

section \<open>The text written by write_stl\<close>

lemma collect_all: "(\<And>x. x \<in> set xs \<Longrightarrow> f x = Inr (g x)) \<Longrightarrow> collect f xs = Inr (map g xs)"
  by (induction xs) simp_all

lemma collect_raises:
  "x \<in> set xs \<Longrightarrow> f x = Inl e \<Longrightarrow> \<exists>e'. collect f xs = Inl e'"
  by (induction xs) (auto split: sum.splits)

lemma range3_facets: "range3 (3 * n) = map (\<lambda>k. 3 * k) [0..<n]"
proof -
  have "(3 * n + 2) div 3 = n" by simp
  then show ?thesis by (simp add: range3_def)
qed

lemma take3_drop:
  assumes "i + 2 < length xs"
  shows "take 3 (drop i xs) = [xs ! i, xs ! (i + 1), xs ! (i + 2)]"
proof -
  have "drop i xs = xs ! i # xs ! (i + 1) # xs ! (i + 2) # drop (i + 3) xs"
    using assms by (simp add: Cons_nth_drop_Suc numeral_3_eq_3)
  then show ?thesis by (simp add: numeral_3_eq_3)
qed

lemma write_stl_text:
  assumes ft: "fst (filetype mf) = Inr ''stl''"
    and ok: "open_error w (mf_path mf) = None"
    and lv: "length (vertices m) = 3 * n"
    and ln: "length (normals m) = length (vertices m)"
  shows "write_stl w mf (Some m) =
     (None, snd (filetype mf),
      w\<lparr>files := (files w)(mf_path mf \<mapsto>
          ''solid\<newline>''
          @ concat (map (\<lambda>k. format_facet
                [vertices m ! (3 * k), vertices m ! (3 * k + 1), vertices m ! (3 * k + 2)]
                (normals m ! (3 * k))) [0..<n])
          @ ''\<newline>'' @ ''endsolid\<newline>'')\<rparr>)"
proof -
  let ?g = "\<lambda>k. format_facet
      [vertices m ! (3 * k), vertices m ! (3 * k + 1), vertices m ! (3 * k + 2)]
      (normals m ! (3 * k))"
  have each: "facet_at (vertices m) (normals m) (3 * k) = Inr (?g k)" if "k < n" for k
  proof -
    have "3 * k + 2 < length (vertices m)" using that lv by simp
    then show ?thesis using ln by (simp add: facet_at_def py_index_def take3_drop)
  qed
  have "collect (facet_at (vertices m) (normals m)) (map (\<lambda>k. 3 * k) [0..<n])
      = Inr (map (\<lambda>i. ?g (i div 3)) (map (\<lambda>k. 3 * k) [0..<n]))"
    by (rule collect_all) (auto simp: each)
  then have c: "collect (facet_at (vertices m) (normals m)) (range3 (length (vertices m)))
      = Inr (map ?g [0..<n])"
    by (simp add: lv range3_facets comp_def)
  obtain r mf1 where f: "filetype mf = (r, mf1)" by (cases "filetype mf")
  with ft have r: "r = Inr ''stl''" by simp
  have p: "mf_path mf1 = mf_path mf" using filetype_path [of mf] f by simp
  have o: "open_write w (mf_path mf) = (None, w\<lparr>files := (files w)(mf_path mf \<mapsto> [])\<rparr>)"
    using ok by (simp add: open_write_def)
  show ?thesis
    unfolding write_stl_def f r
    by (simp add: p c o Let_def print_file_def)
qed

lemma filetype_part_stl:
  "fst (filetype (ModelFile ''part.stl'' None)) = Inr ''stl''"
  by (simp add: filetype_fresh path_eval)

lemma path_ModelFile [simp]: "mf_path (ModelFile p t) = p"
  by (simp add: ModelFile_def reset_file_attributes_def)

lemma empty_world_simps [simp]:
  "open_error empty_world p = None" "files empty_world = Map.empty"
  by (simp_all add: empty_world_def)

section \<open>C1: the text of an exported file\<close>

text \<open>
  C1 on the one-facet mesh of the repository's test fixture: \<open>write_stl\<close> indents the
  first vertex line only, since the three lines are joined by a bare newline before
  they are put behind the template's four spaces, and it leaves an empty line between
  the last \<^verbatim>\<open>endfacet\<close> and \<^verbatim>\<open>endsolid\<close>, since every block already ends in a newline
  and \<^verbatim>\<open>print\<close> adds one more.
\<close>

theorem write_stl_fixture_text:
  "fst (write_stl empty_world (ModelFile ''part.stl'' None)
          (Some (StlModel fixture_vertices fixture_normals))) = None
   \<and> files (snd (snd (write_stl empty_world (ModelFile ''part.stl'' None)
          (Some (StlModel fixture_vertices fixture_normals))))) ''part.stl''
     = Some (''solid\<newline>''
        @ ''facet normal 0.000000 0.000000 1.000000\<newline>''
        @ ''  outer loop\<newline>''
        @ ''    vertex 0.000000 0.500000 0.000000\<newline>''
        @ ''vertex 0.500000 -0.500000 0.000000\<newline>''
        @ ''vertex -0.500000 -0.500000 0.000000\<newline>''
        @ ''  endloop\<newline>''
        @ ''endfacet\<newline>''
        @ ''\<newline>''
        @ ''endsolid\<newline>'')"
proof -
  have v: "length (vertices (StlModel fixture_vertices fixture_normals)) = 3 * 1"
    and n: "length (normals (StlModel fixture_vertices fixture_normals))
        = length (vertices (StlModel fixture_vertices fixture_normals))"
    by (simp_all add: StlModel_def fixture_vertices_def fixture_normals_def)
  have o: "open_error empty_world (mf_path (ModelFile ''part.stl'' None)) = None" by simp
  have f: "format_facet fixture_vertices (0, 0, 1) =
        ''facet normal 0.000000 0.000000 1.000000\<newline>''
        @ ''  outer loop\<newline>''
        @ ''    vertex 0.000000 0.500000 0.000000\<newline>''
        @ ''vertex 0.500000 -0.500000 0.000000\<newline>''
        @ ''vertex -0.500000 -0.500000 0.000000\<newline>''
        @ ''  endloop\<newline>''
        @ ''endfacet\<newline>''"
    by (simp add: format_facet_def fixture_vertices_def vertex_line_def fmt6_eval)
  have g: "format_facet
      [vertices (StlModel fixture_vertices fixture_normals) ! (3 * 0),
       vertices (StlModel fixture_vertices fixture_normals) ! (3 * 0 + 1),
       vertices (StlModel fixture_vertices fixture_normals) ! (3 * 0 + 2)]
      (normals (StlModel fixture_vertices fixture_normals) ! (3 * 0))
      = format_facet fixture_vertices (0, 0, 1)"
    by (simp add: StlModel_def fixture_vertices_def fixture_normals_def)
  show ?thesis
    unfolding write_stl_text [OF filetype_part_stl o v n]
    using f g by (simp add: StlModel_def)
qed

section \<open>C2: the normals buffer and the normal of each facet block\<close>











section \<open>C3: parser errors at the storage boundary\<close>









section \<open>What the operations of a scene leave alone\<close>

text \<open>
  Only \<open>add_model\<close>, \<open>add_supporting_actor\<close> and \<open>clear\<close> assign to \<open>model\<close> or
  \<open>actors\<close>; only the setter of \<open>mode_2d\<close> assigns to \<open>current_view\<close>; and a gesture
  reaches the view that \<open>current_view\<close> refers to.
\<close>

lemma call_model_frame [simp]:
  "model (snd (call_model f s)) = model s"
  "actors (snd (call_model f s)) = actors s"
  "current_view (snd (call_model f s)) = current_view s"
  "view_perspective (snd (call_model f s)) = view_perspective s"
  "view_ortho (snd (call_model f s)) = view_ortho s"
  by (simp_all add: call_model_def split: option.splits prod.splits)

lemma call_view_frame [simp]:
  "model (snd (call_view f k s)) = model s"
  "actors (snd (call_view f k s)) = actors s"
  "current_view (snd (call_view f k s)) = current_view s"
  "heap (snd (call_view f k s)) = heap s"
  "view_perspective (snd (call_view f View2D s)) = view_perspective s"
  "view_ortho (snd (call_view f View3D s)) = view_ortho s"
  by (simp_all add: call_view_def put_view_def split: prod.splits view_class.splits)

lemma init_actors_loop_frame [simp]:
  "model (snd (init_actors_loop C as s)) = model s"
  "actors (snd (init_actors_loop C as s)) = actors s"
  "current_view (snd (init_actors_loop C as s)) = current_view s"
  "view_perspective (snd (init_actors_loop C as s)) = view_perspective s"
  by (induction C as s rule: init_actors_loop.induct; simp split: prod.splits option.splits)+

lemma then_call_frame [simp]:
  "model (snd (case p of (Some e, s1) \<Rightarrow> (Some e, s1) | (None, s1) \<Rightarrow> call_model g s1))
     = model (snd p)"
  "actors (snd (case p of (Some e, s1) \<Rightarrow> (Some e, s1) | (None, s1) \<Rightarrow> call_model g s1))
     = actors (snd p)"
  "current_view (snd (case p of (Some e, s1) \<Rightarrow> (Some e, s1) | (None, s1) \<Rightarrow> call_model g s1))
     = current_view (snd p)"
  "view_perspective (snd (case p of (Some e, s1) \<Rightarrow> (Some e, s1) | (None, s1) \<Rightarrow> call_model g s1))
     = view_perspective (snd p)"
  by (cases p; cases "fst p"; simp)+

lemma export_to_file_frame [simp]:
  "model (snd (snd (snd (export_to_file w mf s)))) = model s"
  "actors (snd (snd (snd (export_to_file w mf s)))) = actors s"
  "current_view (snd (snd (snd (export_to_file w mf s)))) = current_view s"
  "view_perspective (snd (snd (snd (export_to_file w mf s)))) = view_perspective s"
proof -
  obtain e mf1 w1 where f: "write_stl w mf (map_option (heap s) (model s)) = (e, mf1, w1)"
    by (cases "write_stl w mf (map_option (heap s) (model s))")
  have x: "snd (snd (snd (export_to_file w mf s))) =
      (case e of Some ex \<Rightarrow> s | None \<Rightarrow> snd (call_model (\<lambda>m. (None, m\<lparr>modified := False\<rparr>)) s))"
    by (cases e) (simp_all add: export_to_file_def f case_prod_beta)
  show "model (snd (snd (snd (export_to_file w mf s)))) = model s"
    "actors (snd (snd (snd (export_to_file w mf s)))) = actors s"
    "current_view (snd (snd (snd (export_to_file w mf s)))) = current_view s"
    "view_perspective (snd (snd (snd (export_to_file w mf s)))) = view_perspective s"
    unfolding x by (cases e; simp)+
qed

lemma button_motion_state:
  "\<exists>q. (q = s \<or> (\<exists>f. q = snd (call_view f (current_view s) s)))
     \<and> (snd (button_motion C s x y l m r) = q
        \<or> snd (button_motion C s x y l m r) = q\<lparr>cursor_x := x, cursor_y := y\<rparr>)"
proof -
  let ?p = "if l
             then call_view (\<lambda>v. v_rotate C (current_view s) v ((x - cursor_x s) * ROTATE_SPEED / 100)
                                     ((y - cursor_y s) * ROTATE_SPEED / 100)) (current_view s) s
             else if m
             then (case v_offset C (current_view s) of
                     Some offset \<Rightarrow>
                       call_view (\<lambda>v. offset v ((x - cursor_x s) * PAN_SPEED / 100)
                                         ((y - cursor_y s) * PAN_SPEED / 100)) (current_view s) s
                   | None \<Rightarrow> (None, s))
             else if r
             then call_view (\<lambda>v. v_pan C (current_view s) v ((x - cursor_x s) * PAN_SPEED / 100)
                                     ((y - cursor_y s) * PAN_SPEED / 100)) (current_view s) s
             else (None, s)"
  have 1: "snd ?p = s \<or> (\<exists>f. snd ?p = snd (call_view f (current_view s) s))"
    by (cases "v_offset C (current_view s)") auto
  have 2: "snd (button_motion C s x y l m r) = snd ?p
        \<or> snd (button_motion C s x y l m r) = (snd ?p)\<lparr>cursor_x := x, cursor_y := y\<rparr>"
    unfolding button_motion_def Let_def
    by (cases ?p; cases "fst ?p") (simp_all only: prod.case fst_conv snd_conv option.case, blast+)
  from 1 2 show ?thesis by blast
qed

lemma button_motion_frame [simp]:
  "model (snd (button_motion C s x y l m r)) = model s"
  "actors (snd (button_motion C s x y l m r)) = actors s"
  "current_view (snd (button_motion C s x y l m r)) = current_view s"
  "current_view s = View2D \<Longrightarrow>
     view_perspective (snd (button_motion C s x y l m r)) = view_perspective s"
proof -
  from button_motion_state [of s C x y l m r] obtain q where
    q: "q = s \<or> (\<exists>f. q = snd (call_view f (current_view s) s))"
    and b: "snd (button_motion C s x y l m r) = q
        \<or> snd (button_motion C s x y l m r) = q\<lparr>cursor_x := x, cursor_y := y\<rparr>"
    by blast
  from q have f: "model q = model s" "actors q = actors s" "current_view q = current_view s"
    "current_view s = View2D \<Longrightarrow> view_perspective q = view_perspective s"
    by auto
  from b f show "model (snd (button_motion C s x y l m r)) = model s"
    "actors (snd (button_motion C s x y l m r)) = actors s"
    "current_view (snd (button_motion C s x y l m r)) = current_view s"
    "current_view s = View2D \<Longrightarrow>
     view_perspective (snd (button_motion C s x y l m r)) = view_perspective s"
    by auto
qed

lemma wheel_scroll_frame [simp]:
  "model (snd (wheel_scroll C s d)) = model s"
  "actors (snd (wheel_scroll C s d)) = actors s"
  "current_view (snd (wheel_scroll C s d)) = current_view s"
  "current_view s = View2D \<Longrightarrow> view_perspective (snd (wheel_scroll C s d)) = view_perspective s"
  by (simp_all add: wheel_scroll_def Let_def)

lemma reset_view_frame [simp]:
  "model (snd (reset_view C s both)) = model s"
  "actors (snd (reset_view C s both)) = actors s"
  "current_view (snd (reset_view C s both)) = current_view s"
  "current_view s = View2D \<Longrightarrow> \<not> both \<Longrightarrow>
     view_perspective (snd (reset_view C s both)) = view_perspective s"
proof -
  obtain e s1 where c: "call_view (v_reset_state C View2D) View2D s = (e, s1)"
    by (cases "call_view (v_reset_state C View2D) View2D s")
  have s1: "model s1 = model s" "actors s1 = actors s" "current_view s1 = current_view s"
    using call_view_frame(1-3) [of "v_reset_state C View2D" View2D s] c by simp_all
  show "model (snd (reset_view C s both)) = model s"
    "actors (snd (reset_view C s both)) = actors s"
    "current_view (snd (reset_view C s both)) = current_view s"
    by (cases both; cases e; simp add: reset_view_def c s1)+
  show "current_view s = View2D \<Longrightarrow> \<not> both \<Longrightarrow>
     view_perspective (snd (reset_view C s both)) = view_perspective s"
    by (simp add: reset_view_def)
qed

lemma view_model_center_frame [simp]:
  "model (snd (view_model_center C s)) = model s"
  "actors (snd (view_model_center C s)) = actors s"
  "current_view (snd (view_model_center C s)) = current_view s"
  "view_perspective (snd (view_model_center C s)) = view_perspective s"
  by (simp_all add: view_model_center_def split: option.splits sum.splits prod.splits)

lemma center_model_frame [simp]:
  "model (snd (center_model C s)) = model s"
  "actors (snd (center_model C s)) = actors s"
  "current_view (snd (center_model C s)) = current_view s"
  "view_perspective (snd (center_model C s)) = view_perspective s"
  by (simp_all add: center_model_def split: option.splits sum.splits prod.splits)

lemma scale_model_frame [simp]:
  "model (snd (scale_model C s f)) = model s"
  "actors (snd (scale_model C s f)) = actors s"
  "current_view (snd (scale_model C s f)) = current_view s"
  "view_perspective (snd (scale_model C s f)) = view_perspective s"
  by (simp_all add: scale_model_def)

lemma change_model_dimension_frame [simp]:
  "model (snd (change_model_dimension C s d v)) = model s"
  "actors (snd (change_model_dimension C s d v)) = actors s"
  "current_view (snd (change_model_dimension C s d v)) = current_view s"
  "view_perspective (snd (change_model_dimension C s d v)) = view_perspective s"
  by (simp_all add: change_model_dimension_def Let_def split: option.splits sum.splits)

lemma rotate_model_frame [simp]:
  "model (snd (rotate_model C s a n)) = model s"
  "actors (snd (rotate_model C s a n)) = actors s"
  "current_view (snd (rotate_model C s a n)) = current_view s"
  "view_perspective (snd (rotate_model C s a n)) = view_perspective s"
  by (simp_all add: rotate_model_def split: option.splits)

lemma show_arrows_frame [simp]:
  "model (snd (show_arrows C s sh)) = model s"
  "actors (snd (show_arrows C s sh)) = actors s"
  "current_view (snd (show_arrows C s sh)) = current_view s"
  "view_perspective (snd (show_arrows C s sh)) = view_perspective s"
  by (simp_all add: show_arrows_def)

lemma init_frame [simp]:
  "model (snd (init C s)) = model s"
  "actors (snd (init C s)) = actors s"
  "current_view (snd (init C s)) = current_view s"
  "view_perspective (snd (init C s)) = view_perspective s"
  by (cases "init_actors_loop C (actors s) s"; cases "fst (init_actors_loop C (actors s) s)";
      use init_actors_loop_frame [of C "actors s" s] in \<open>simp add: init_def init_actors_def\<close>)+

lemma snd_case_state: "snd (snd (case p of (e, s1) \<Rightarrow> (e, w, s1))) = snd p"
  by (cases p) simp

lemma snd_case_export:
  "snd (snd (case p of (e, mf1, x) \<Rightarrow> (e, x))) = snd (snd (snd p))"
  by (cases p) simp

lemmas run_op_unfold =
  snd_case_state snd_case_export add_model_def add_supporting_actor_def clear_def
  button_press_def set_mode_2d_def set_mode_ortho_def rotate_view_def put_view_def mode_2d_def
  init_actors_def change_num_layers_def

lemma run_op_model:
  "model (snd (snd (run_op C (w, s) op))) = (case op of Add_model m \<Rightarrow> Some m | _ \<Rightarrow> model s)"
  by (cases op) (simp_all add: run_op_unfold split: sum.splits view_class.splits)

lemma run_op_actors:
  "actors (snd (snd (run_op C (w, s) op))) =
       (case op of Add_model m \<Rightarrow> actors s @ [m] | Add_supporting_actor a \<Rightarrow> actors s @ [a]
        | Clear \<Rightarrow> [] | _ \<Rightarrow> actors s)"
  by (cases op) (simp_all add: run_op_unfold split: sum.splits view_class.splits)

lemma run_op_current_view:
  "current_view (snd (snd (run_op C (w, s) op))) =
       (case op of Set_mode_2d v \<Rightarrow> (if v then View2D else View3D) | _ \<Rightarrow> current_view s)"
  by (cases op) (simp_all add: run_op_unfold split: sum.splits view_class.splits)

lemma run_op_view_perspective:
  "current_view s = View2D \<Longrightarrow> op \<noteq> Reset_view True \<Longrightarrow>
        view_perspective (snd (snd (run_op C (w, s) op))) = view_perspective s"
  by (cases op) (simp_all add: run_op_unfold split: sum.splits view_class.splits)

section \<open>C9: the model among the actors\<close>

lemma run_ops_keeps_actor:
  "Clear \<notin> set ops \<Longrightarrow> a \<in> set (actors s) \<Longrightarrow> a \<in> set (actors (snd (run_ops C (w, s) ops)))"
proof (induction ops arbitrary: w s)
  case Nil
  then show ?case by simp
next
  case (Cons op ops)
  obtain e w1 s1 where r: "run_op C (w, s) op = (e, w1, s1)" by (cases "run_op C (w, s) op")
  have "a \<in> set (actors s1)"
    using run_op_actors [of C w s op] r Cons.prems by (cases op) auto
  with Cons r show ?case by simp
qed

lemma run_ops_model_in_actors:
  "Clear \<notin> set ops \<Longrightarrow> (\<forall>r. model s = Some r \<longrightarrow> r \<in> set (actors s)) \<Longrightarrow>
   model (snd (run_ops C (w, s) ops)) = Some r \<Longrightarrow> r \<in> set (actors (snd (run_ops C (w, s) ops)))"
proof (induction ops arbitrary: w s)
  case Nil
  then show ?case by simp
next
  case (Cons op ops)
  obtain e w1 s1 where r: "run_op C (w, s) op = (e, w1, s1)" by (cases "run_op C (w, s) op")
  have "\<forall>r. model s1 = Some r \<longrightarrow> r \<in> set (actors s1)"
    using run_op_actors [of C w s op] run_op_model [of C w s op] r Cons.prems(1,2)
    by (cases op) auto
  with Cons r show ?case by simp
qed

text \<open>
  C9, as stated, fails: \<open>clear\<close> empties \<open>actors\<close> and leaves \<open>model\<close> set, so after
  \<open>add_model\<close> and \<open>clear\<close> the model is set and is not among the actors.
\<close>

theorem clear_drops_model_counterexample:
  "model (clear fixture_scene) = Some 0 \<and> 0 \<notin> set (actors (clear fixture_scene))"
  by (simp add: clear_def fixture_scene_def add_model_def Scene_def)

text \<open>
  C9, amended: right after \<open>add_model\<close> the model is the last of the actors, and it
  stays among the actors through every sequence of Scene operations that has no
  \<open>clear\<close> in it; after such a sequence whatever model the scene holds is among its
  actors.  \<open>clear\<close> empties \<open>actors\<close> and leaves \<open>model\<close> as it is.
\<close>

theorem model_among_actors:
  "model (add_model s m) = Some m
   \<and> actors (add_model s m) = actors s @ [m]
   \<and> (Clear \<notin> set ops \<longrightarrow>
        m \<in> set (actors (snd (run_ops C (w, add_model s m) ops)))
      \<and> (\<forall>r. model (snd (run_ops C (w, add_model s m) ops)) = Some r \<longrightarrow>
             r \<in> set (actors (snd (run_ops C (w, add_model s m) ops)))))
   \<and> actors (clear s) = [] \<and> model (clear s) = model s"
proof -
  have a: "m \<in> set (actors (add_model s m))"
    and b: "\<forall>r. model (add_model s m) = Some r \<longrightarrow> r \<in> set (actors (add_model s m))"
    by (simp_all add: add_model_def)
  show ?thesis
    using run_ops_keeps_actor [OF _ a, of ops C w]
      run_ops_model_in_actors [OF _ b, of ops C w]
    by (auto simp: add_model_def clear_def)
qed

theorem model_among_actors_witness:
  "Clear \<notin> set [Add_supporting_actor 1, Scale_model 2, Set_mode_2d True,
       Button_motion 3 4 True False False, Export_to_file (ModelFile ''part.stl'' None)]
   \<and> 0 \<in> set (actors (snd (run_ops model_collab
        (empty_world, add_model (Scene (still_view False) (still_view True)
           (\<lambda>r. StlModel fixture_vertices fixture_normals)) 0)
        [Add_supporting_actor 1, Scale_model 2, Set_mode_2d True,
         Button_motion 3 4 True False False, Export_to_file (ModelFile ''part.stl'' None)])))"
  using model_among_actors
    [of "Scene (still_view False) (still_view True) (\<lambda>r. StlModel fixture_vertices fixture_normals)" 0
      "[Add_supporting_actor 1, Scale_model 2, Set_mode_2d True,
        Button_motion 3 4 True False False, Export_to_file (ModelFile ''part.stl'' None)]"
      model_collab empty_world]
  by simp

section \<open>C7: switching between the two views\<close>

lemma run_ops_while_2d:
  "current_view s = View2D \<Longrightarrow> Reset_view True \<notin> set ops \<Longrightarrow>
   \<forall>b. Set_mode_2d b \<notin> set ops \<Longrightarrow>
   view_perspective (snd (run_ops C (w, s) ops)) = view_perspective s
   \<and> current_view (snd (run_ops C (w, s) ops)) = View2D"
proof (induction ops arbitrary: w s)
  case Nil
  then show ?case by simp
next
  case (Cons op ops)
  obtain e w1 s1 where r: "run_op C (w, s) op = (e, w1, s1)" by (cases "run_op C (w, s) op")
  have "op \<noteq> Reset_view True" using Cons.prems by auto
  from run_op_view_perspective [OF Cons.prems(1) this, of C w] r
  have v: "view_perspective s1 = view_perspective s" by simp
  have c: "current_view s1 = View2D"
    using run_op_current_view [of C w s op] r Cons.prems by (cases op) auto
  from Cons.IH [OF c, of w1] Cons.prems v r show ?case by simp
qed

text \<open>
  C7: setting \<open>mode_2d\<close> to true and then back to false makes the 3D view current
  again, in exactly the state it had before the switch, and leaves the 2D view as it
  was; \<open>mode_2d\<close> reads true iff \<open>current_view\<close> is the 2D view.  The setter assigns the
  reference only, and whatever the scene is asked to do while the 2D view is current
  (gestures, resets of the current view, model operations; not a reset of both views
  and not another switch) leaves the 3D view's state untouched.
\<close>

theorem mode_2d_round_trip:
  "current_view (set_mode_2d (set_mode_2d s True) False) = View3D
   \<and> get_view (set_mode_2d (set_mode_2d s True) False)
        (current_view (set_mode_2d (set_mode_2d s True) False)) = view_perspective s
   \<and> view_ortho (set_mode_2d (set_mode_2d s True) False) = view_ortho s
   \<and> current_view (set_mode_2d s True) = View2D
   \<and> mode_2d (set_mode_2d s True) \<and> \<not> mode_2d (set_mode_2d (set_mode_2d s True) False)
   \<and> mode_2d s = (current_view s = View2D)
   \<and> set_mode_2d s v = s\<lparr>current_view := (if v then View2D else View3D)\<rparr>
   \<and> (Reset_view True \<notin> set ops \<and> (\<forall>b. Set_mode_2d b \<notin> set ops) \<longrightarrow>
        current_view (set_mode_2d (snd (run_ops C (w, set_mode_2d s True) ops)) False) = View3D
      \<and> get_view (set_mode_2d (snd (run_ops C (w, set_mode_2d s True) ops)) False) View3D
          = view_perspective s)"
  using run_ops_while_2d [of "set_mode_2d s True" ops C w]
  by (simp add: set_mode_2d_def mode_2d_def get_view_def)

theorem mode_2d_round_trip_witness:
  "view_perspective (snd (run_ops model_collab
        (empty_world, set_mode_2d fixture_scene True)
        [Button_motion 3 4 True False False, Wheel_scroll 1, Reset_view False,
         Button_motion 5 9 False False True, Scale_model 2])) = still_view True
   \<and> get_view (set_mode_2d (snd (run_ops model_collab
        (empty_world, set_mode_2d fixture_scene True)
        [Button_motion 3 4 True False False, Wheel_scroll 1, Reset_view False,
         Button_motion 5 9 False False True, Scale_model 2])) False) View3D = still_view True"
proof -
  have v: "view_perspective fixture_scene = still_view True"
    by (simp add: fixture_scene_def add_model_def Scene_def)
  from mode_2d_round_trip [of fixture_scene _
      "[Button_motion 3 4 True False False, Wheel_scroll 1, Reset_view False,
        Button_motion 5 9 False False True, Scale_model 2]" model_collab empty_world]
  show ?thesis by (simp add: v get_view_def set_mode_2d_def)
qed

section \<open>C6: the modified flag\<close>

lemma export_to_file_result:
  "export_to_file w mf s =
     (case write_stl w mf (map_option (heap s) (model s)) of
        (Some e, mf1, w1) \<Rightarrow> (Some e, mf1, w1, s)
      | (None, mf1, w1) \<Rightarrow>
          (case model s of
             None \<Rightarrow> (Some (AttributeError ''NoneType''), mf1, w1, s)
           | Some r \<Rightarrow> (None, mf1, w1, s\<lparr>heap := (heap s)(r := (heap s r)\<lparr>modified := False\<rparr>)\<rparr>)))"
  by (simp add: export_to_file_def call_model_def split: prod.splits option.splits)

lemma export_to_file_failure:
  "fst (export_to_file w mf s) \<noteq> None \<Longrightarrow> snd (snd (snd (export_to_file w mf s))) = s"
  by (auto simp: export_to_file_result split: prod.splits option.splits)

lemma export_to_file_success:
  "fst (export_to_file w mf s) = None \<Longrightarrow> model s = Some r \<Longrightarrow>
   \<not> modified (heap (snd (snd (snd (export_to_file w mf s)))) r)"
  by (auto simp: export_to_file_result split: prod.splits option.splits)

lemma apply_event_transform:
  assumes "model s = Some r" "\<forall>mf. ev \<noteq> Ev_export_to_file mf"
  shows "fst (apply_event (w, s) ev) = None \<Longrightarrow> modified (heap (snd (snd (apply_event (w, s) ev))) r)"
    and "modified (heap s r) \<Longrightarrow> modified (heap (snd (snd (apply_event (w, s) ev))) r)"
  using assms
  by (cases ev; simp add: call_model_def scale_def translate_def rotate_rel_def rotate_abs_def
      split: if_splits)+

text \<open>
  C6: the flag is false right after \<open>load_data\<close>; each of \<open>scale\<close>, \<open>translate\<close>,
  \<open>rotate_rel\<close>, \<open>rotate_abs\<close> that completes leaves it true; a flag that was true and
  is false after an event has been cleared by an \<open>export_to_file\<close> that completed; a
  completed export leaves it false; and an export that fails (its \<open>write_stl\<close>
  raising) leaves the whole scene, the flag with it, as it was.
\<close>

theorem modified_flag_lifecycle:
  "(fst (load_data m0 vs ns) = None \<longrightarrow> \<not> modified (snd (load_data m0 vs ns)))
   \<and> (model s = Some r \<longrightarrow>
        ((\<forall>mf. ev \<noteq> Ev_export_to_file mf) \<and> fst (apply_event (w, s) ev) = None \<longrightarrow>
           modified (heap (snd (snd (apply_event (w, s) ev))) r))
      \<and> (modified (heap s r) \<and> \<not> modified (heap (snd (snd (apply_event (w, s) ev))) r) \<longrightarrow>
           (\<exists>mf. ev = Ev_export_to_file mf) \<and> fst (apply_event (w, s) ev) = None)
      \<and> (fst (apply_event (w, s) (Ev_export_to_file mf)) = None \<longrightarrow>
           \<not> modified (heap (snd (snd (apply_event (w, s) (Ev_export_to_file mf)))) r)))
   \<and> (fst (apply_event (w, s) (Ev_export_to_file mf)) \<noteq> None \<longrightarrow>
        snd (snd (apply_event (w, s) (Ev_export_to_file mf))) = s)"
proof (intro conjI impI)
  show "\<not> modified (snd (load_data m0 vs ns))" if "fst (load_data m0 vs ns) = None"
    using that by (simp add: load_data_def split: if_splits)
next
  assume "model s = Some r"
    and "(\<forall>mf. ev \<noteq> Ev_export_to_file mf) \<and> fst (apply_event (w, s) ev) = None"
  then show "modified (heap (snd (snd (apply_event (w, s) ev))) r)"
    using apply_event_transform(1) [of s r ev w] by blast
next
  assume m: "model s = Some r"
    and h: "modified (heap s r) \<and> \<not> modified (heap (snd (snd (apply_event (w, s) ev))) r)"
  then show "\<exists>mf. ev = Ev_export_to_file mf"
    using apply_event_transform(2) [of s r ev w] by blast
  then obtain mf' where ev: "ev = Ev_export_to_file mf'" by blast
  show "fst (apply_event (w, s) ev) = None"
  proof (rule ccontr)
    assume "fst (apply_event (w, s) ev) \<noteq> None"
    then have "snd (snd (apply_event (w, s) ev)) = s"
      using export_to_file_failure [of w mf' s] by (simp add: ev case_prod_beta)
    with h show False by simp
  qed
next
  assume "model s = Some r" and "fst (apply_event (w, s) (Ev_export_to_file mf)) = None"
  then show "\<not> modified (heap (snd (snd (apply_event (w, s) (Ev_export_to_file mf)))) r)"
    using export_to_file_success [of w mf s r] by (simp add: case_prod_beta)
next
  assume "fst (apply_event (w, s) (Ev_export_to_file mf)) \<noteq> None"
  then show "snd (snd (apply_event (w, s) (Ev_export_to_file mf))) = s"
    using export_to_file_failure [of w mf s] by (simp add: case_prod_beta)
qed

lemma fixture_scene_simps:
  "model fixture_scene = Some 0"
  "heap fixture_scene 0 = StlModel fixture_vertices fixture_normals"
  by (simp_all add: fixture_scene_def add_model_def Scene_def)

lemma scaled_scene_simps:
  "model scaled_scene = Some 0"
  "heap scaled_scene 0 =
     (StlModel fixture_vertices fixture_normals)\<lparr>scaling_factor := 11 / 10, modified := True\<rparr>"
  by (simp_all add: scaled_scene_def call_model_def fixture_scene_simps scale_def StlModel_def)

lemma scaled_scene_export:
  "fst (write_stl empty_world (ModelFile ''part.stl'' None) (Some (heap scaled_scene 0))) = None"
proof -
  have "length (vertices (heap scaled_scene 0)) = 3 * 1"
    and "length (normals (heap scaled_scene 0)) = length (vertices (heap scaled_scene 0))"
    by (simp_all add: scaled_scene_simps StlModel_def fixture_vertices_def fixture_normals_def)
  from write_stl_text [OF filetype_part_stl _ this] show ?thesis by simp
qed

lemma gcode_export_fails:
  "fst (write_stl w (ModelFile ''job.gcode'' None) sm) = Some AssertionError"
proof -
  have "fst (filetype (ModelFile ''job.gcode'' None)) = Inr ''gcode''"
    by (simp add: filetype_fresh path_eval)
  then show ?thesis by (cases "filetype (ModelFile ''job.gcode'' None)") (simp add: write_stl_def)
qed

theorem modified_flag_lifecycle_witness:
  "\<not> modified (snd (load_data (StlModel [] []) fixture_vertices fixture_normals))
   \<and> \<not> modified (heap fixture_scene 0)
   \<and> modified (heap (snd (snd (apply_event (empty_world, fixture_scene) (Ev_scale (11 / 10))))) 0)
   \<and> modified (heap scaled_scene 0)
   \<and> \<not> modified (heap (snd (snd (apply_event (empty_world, scaled_scene)
          (Ev_export_to_file (ModelFile ''part.stl'' None))))) 0)
   \<and> snd (snd (apply_event (empty_world, scaled_scene)
          (Ev_export_to_file (ModelFile ''job.gcode'' None)))) = scaled_scene"
proof -
  have l: "fst (load_data (StlModel [] []) fixture_vertices fixture_normals) = None"
    by (simp add: load_data_def fixture_vertices_def)
  have sc: "fst (apply_event (empty_world, fixture_scene) (Ev_scale (11 / 10))) = None"
    by (simp add: call_model_def fixture_scene_simps scale_def)
  have ex: "fst (apply_event (empty_world, scaled_scene)
      (Ev_export_to_file (ModelFile ''part.stl'' None))) = None"
    using scaled_scene_export
    by (cases "write_stl empty_world (ModelFile ''part.stl'' None) (Some (heap scaled_scene 0))")
      (simp add: export_to_file_result scaled_scene_simps(1))
  have fl: "fst (apply_event (empty_world, scaled_scene)
      (Ev_export_to_file (ModelFile ''job.gcode'' None))) \<noteq> None"
    using gcode_export_fails [of empty_world "map_option (heap scaled_scene) (model scaled_scene)"]
    by (cases "write_stl empty_world (ModelFile ''job.gcode'' None)
          (map_option (heap scaled_scene) (model scaled_scene))")
      (simp add: export_to_file_result)
  have a: "\<not> modified (snd (load_data (StlModel [] []) fixture_vertices fixture_normals))"
    using modified_flag_lifecycle [of "StlModel [] []" fixture_vertices fixture_normals] l
    by simp
  have b: "modified (heap (snd (snd (apply_event (empty_world, fixture_scene)
      (Ev_scale (11 / 10))))) 0)"
    using modified_flag_lifecycle [of _ _ _ fixture_scene 0 "Ev_scale (11 / 10)" empty_world] sc
    by (simp add: fixture_scene_simps)
  have c: "\<not> modified (heap (snd (snd (apply_event (empty_world, scaled_scene)
          (Ev_export_to_file (ModelFile ''part.stl'' None))))) 0)"
    using modified_flag_lifecycle [of _ _ _ scaled_scene 0 _ empty_world "ModelFile ''part.stl'' None"]
      ex
    by (simp add: scaled_scene_simps)
  have d: "snd (snd (apply_event (empty_world, scaled_scene)
          (Ev_export_to_file (ModelFile ''job.gcode'' None)))) = scaled_scene"
    using modified_flag_lifecycle [of _ _ _ scaled_scene _ _ empty_world "ModelFile ''job.gcode'' None"]
      fl
    by blast
  from a b c d show ?thesis
    by (simp add: fixture_scene_simps scaled_scene_simps StlModel_def)
qed

section \<open>C10: the division in change_model_dimension\<close>

text \<open>
  C10: when the model's current value of the named dimension is zero,
  \<open>change_model_dimension\<close> raises \<open>ZeroDivisionError\<close> and the scene, the model's
  \<open>scaling_factor\<close> and \<open>modified\<close> flag with it, is as before; when it is not zero,
  the call is \<open>scale_model\<close> with the factor
  \<open>(value / current_value) * scaling_factor\<close>: the model's \<open>scale\<close> is called with
  that factor and, if it completes, the model's \<open>init\<close> follows.
\<close>

theorem change_model_dimension_division:
  "model s = Some r \<and> m_getattr C (heap s r) dimension = Inr current_value \<longrightarrow>
     (current_value = 0 \<longrightarrow>
        change_model_dimension C s dimension val = (Some ZeroDivisionError, s))
   \<and> (current_value \<noteq> 0 \<longrightarrow>
        change_model_dimension C s dimension val
          = scale_model C s ((val / current_value) * scaling_factor (heap s r))
      \<and> (m_scale C (heap s r) ((val / current_value) * scaling_factor (heap s r)) = (None, m1)
           \<and> m_init C m1 = (e2, m2) \<longrightarrow>
          change_model_dimension C s dimension val = (e2, s\<lparr>heap := (heap s)(r := m2)\<rparr>))
      \<and> (m_scale C (heap s r) ((val / current_value) * scaling_factor (heap s r)) = (Some e1, m1)
           \<longrightarrow>
          change_model_dimension C s dimension val = (Some e1, s\<lparr>heap := (heap s)(r := m1)\<rparr>)))"
  by (auto simp: change_model_dimension_def scale_model_def call_model_def Let_def)

lemma fixture_dimensions:
  "m_getattr model_collab (heap fixture_scene 0) ''height'' = Inr 0"
  "m_getattr model_collab (heap fixture_scene 0) ''width'' = Inr 1"
  by (simp_all add: model_collab_def fixture_scene_simps StlModel_def fixture_vertices_def
      extent_def)

theorem change_model_dimension_division_witness:
  "change_model_dimension model_collab fixture_scene ''height'' 10
     = (Some ZeroDivisionError, fixture_scene)
   \<and> change_model_dimension model_collab fixture_scene ''width'' 2
     = (None, fixture_scene\<lparr>heap := (heap fixture_scene)
          (0 := (StlModel fixture_vertices fixture_normals)
             \<lparr>scaling_factor := 2, modified := True, initialized := True\<rparr>)\<rparr>)"
proof -
  have a: "change_model_dimension model_collab fixture_scene ''height'' 10
     = (Some ZeroDivisionError, fixture_scene)"
    using change_model_dimension_division [of fixture_scene 0 model_collab "''height''" 0 10]
    by (simp add: fixture_scene_simps(1) fixture_dimensions)
  have sc: "m_scale model_collab (heap fixture_scene 0) ((2 / 1) * scaling_factor (heap fixture_scene 0))
      = (None, (StlModel fixture_vertices fixture_normals)\<lparr>scaling_factor := 2, modified := True\<rparr>)"
    by (simp add: model_collab_def fixture_scene_simps scale_def StlModel_def)
  have i: "m_init model_collab
      ((StlModel fixture_vertices fixture_normals)\<lparr>scaling_factor := 2, modified := True\<rparr>)
      = (None, (StlModel fixture_vertices fixture_normals)
             \<lparr>scaling_factor := 2, modified := True, initialized := True\<rparr>)"
    by (simp add: model_collab_def model_init_def)
  have b: "change_model_dimension model_collab fixture_scene ''width'' 2
     = (None, fixture_scene\<lparr>heap := (heap fixture_scene)
          (0 := (StlModel fixture_vertices fixture_normals)
             \<lparr>scaling_factor := 2, modified := True, initialized := True\<rparr>)\<rparr>)"
  proof -
    have pre: "model fixture_scene = Some 0
        \<and> m_getattr model_collab (heap fixture_scene 0) ''width'' = Inr 1"
      by (simp add: fixture_scene_simps(1) fixture_dimensions)
    have nz: "(1::real) \<noteq> 0" by simp
    from change_model_dimension_division [of fixture_scene 0 model_collab "''width''" 1 2
        "(StlModel fixture_vertices fixture_normals)\<lparr>scaling_factor := 2, modified := True\<rparr>"
        None
        "(StlModel fixture_vertices fixture_normals)
             \<lparr>scaling_factor := 2, modified := True, initialized := True\<rparr>"] pre nz sc i
    show ?thesis by blast
  qed
  from a b show ?thesis by simp
qed

section \<open>C8: the eye height of the perspective path\<close>

lemma sqrt_sum_squares_factor:
  assumes "x \<noteq> 0"
  shows "sqrt (x\<^sup>2 + y\<^sup>2) = \<bar>x\<bar> * sqrt (1 + (y / x)\<^sup>2)"
proof -
  have "x\<^sup>2 + y\<^sup>2 = x\<^sup>2 * (1 + (y / x)\<^sup>2)"
    using assms by (simp add: field_simps power2_eq_square)
  then show ?thesis by (simp add: real_sqrt_mult)
qed

lemma sqrt_one_plus_pos: "0 < sqrt (1 + (t::real)\<^sup>2)"
  by (simp add: add_pos_nonneg)

lemma polar_arctan:
  assumes "x \<noteq> 0"
  shows "sqrt (x\<^sup>2 + y\<^sup>2) * cos (arctan (y / x)) = \<bar>x\<bar>"
    and "sqrt (x\<^sup>2 + y\<^sup>2) * sin (arctan (y / x)) = \<bar>x\<bar> * (y / x)"
  using sqrt_one_plus_pos [of "y / x"]
  by (simp_all add: sqrt_sum_squares_factor [OF assms] cos_arctan sin_arctan)

lemma polar_atan2:
  "sqrt (x\<^sup>2 + y\<^sup>2) * cos (atan2 y x) = x"
  "sqrt (x\<^sup>2 + y\<^sup>2) * sin (atan2 y x) = y"
proof -
  consider "0 < x" | "x < 0" "0 \<le> y" | "x < 0" "y < 0" | "x = 0" "0 < y" | "x = 0" "y < 0"
    | "x = 0" "y = 0"
    by linarith
  then have "sqrt (x\<^sup>2 + y\<^sup>2) * cos (atan2 y x) = x
      \<and> sqrt (x\<^sup>2 + y\<^sup>2) * sin (atan2 y x) = y"
  proof cases
    case 1
    then show ?thesis using polar_arctan [of x y] by (simp add: atan2_def)
  next
    case 2
    then show ?thesis using polar_arctan [of x y] by (simp add: atan2_def)
  next
    case 3
    then show ?thesis using polar_arctan [of x y] by (simp add: atan2_def)
  next
    case 4
    then show ?thesis by (simp add: atan2_def)
  next
    case 5
    then show ?thesis by (simp add: atan2_def)
  next
    case 6
    then show ?thesis by (simp add: atan2_def)
  qed
  then show "sqrt (x\<^sup>2 + y\<^sup>2) * cos (atan2 y x) = x"
    "sqrt (x\<^sup>2 + y\<^sup>2) * sin (atan2 y x) = y"
    by simp_all
qed

lemma radians_viewing_angle:
  "radians (- degrees t - e) = - (t + radians e)"
  by (simp add: radians_def degrees_def field_simps)

lemma eye_height_closed_form:
  "sqrt (y\<^sup>2 + z\<^sup>2) * sin (radians (- degrees (atan2 z y) - e))
     = - (z * cos (radians e) + y * sin (radians e))"
proof -
  have s: "sin (radians (- degrees (atan2 z y) - e))
      = - (sin (atan2 z y) * cos (radians e) + cos (atan2 z y) * sin (radians e))"
    by (simp only: radians_viewing_angle sin_minus sin_add)
  have "sqrt (y\<^sup>2 + z\<^sup>2) * sin (radians (- degrees (atan2 z y) - e))
      = - ((sqrt (y\<^sup>2 + z\<^sup>2) * sin (atan2 z y)) * cos (radians e)
           + (sqrt (y\<^sup>2 + z\<^sup>2) * cos (atan2 z y)) * sin (radians e))"
    unfolding s by (simp add: algebra_simps)
  then show ?thesis by (simp only: polar_atan2)
qed

text \<open>
  C8: in a display call on the perspective path (\<open>mode_ortho\<close> false) with a nonzero
  zoom factor, every actor is passed the same \<open>eye_height\<close>,
  \<open>sqrt (y'\<^sup>2 + z\<^sup>2) * sin (radians (- degrees (atan2 z y') - elevation))\<close> with
  \<open>y' = y / zoom_factor\<close>, computed from the current view's state alone.  Over the
  reals this value is \<open>- (z * cos (radians elevation) + y' * sin (radians elevation))\<close>;
  with \<open>y = 100\<close>, \<open>z = 50\<close>, \<open>zoom_factor = 1\<close>, \<open>elevation = 0\<close> it is \<open>- 50\<close>.
\<close>

theorem display_eye_height:
  "\<not> mode_ortho s \<and> zoom_factor (get_view s (current_view s)) \<noteq> 0 \<longrightarrow>
     display s =
       Inr (map (\<lambda>actor. (actor, Display_eye_height
              (sqrt ((view_y (get_view s (current_view s))
                      / zoom_factor (get_view s (current_view s)))\<^sup>2
                     + (view_z (get_view s (current_view s)))\<^sup>2)
               * sin (radians (- degrees (atan2 (view_z (get_view s (current_view s)))
                                    (view_y (get_view s (current_view s))
                                     / zoom_factor (get_view s (current_view s))))
                               - elevation (get_view s (current_view s)))))
              False (mode_2d s)))
            (actors s))
   \<and> sqrt ((view_y (get_view s (current_view s))
            / zoom_factor (get_view s (current_view s)))\<^sup>2
           + (view_z (get_view s (current_view s)))\<^sup>2)
     * sin (radians (- degrees (atan2 (view_z (get_view s (current_view s)))
                          (view_y (get_view s (current_view s))
                           / zoom_factor (get_view s (current_view s))))
                     - elevation (get_view s (current_view s))))
     = - (view_z (get_view s (current_view s))
            * cos (radians (elevation (get_view s (current_view s))))
          + view_y (get_view s (current_view s)) / zoom_factor (get_view s (current_view s))
            * sin (radians (elevation (get_view s (current_view s)))))
   \<and> (view_y (get_view s (current_view s)) = 100 \<and> view_z (get_view s (current_view s)) = 50
      \<and> zoom_factor (get_view s (current_view s)) = 1
      \<and> elevation (get_view s (current_view s)) = 0 \<longrightarrow>
      display s = Inr (map (\<lambda>actor. (actor, Display_eye_height (- 50) False (mode_2d s)))
                         (actors s)))"
proof (intro impI conjI)
  assume h: "\<not> mode_ortho s \<and> zoom_factor (get_view s (current_view s)) \<noteq> 0"
  then show d: "display s =
       Inr (map (\<lambda>actor. (actor, Display_eye_height
              (sqrt ((view_y (get_view s (current_view s))
                      / zoom_factor (get_view s (current_view s)))\<^sup>2
                     + (view_z (get_view s (current_view s)))\<^sup>2)
               * sin (radians (- degrees (atan2 (view_z (get_view s (current_view s)))
                                    (view_y (get_view s (current_view s))
                                     / zoom_factor (get_view s (current_view s))))
                               - elevation (get_view s (current_view s)))))
              False (mode_2d s)))
            (actors s))"
    by (simp add: display_def Let_def)
  show "sqrt ((view_y (get_view s (current_view s))
            / zoom_factor (get_view s (current_view s)))\<^sup>2
           + (view_z (get_view s (current_view s)))\<^sup>2)
     * sin (radians (- degrees (atan2 (view_z (get_view s (current_view s)))
                          (view_y (get_view s (current_view s))
                           / zoom_factor (get_view s (current_view s))))
                     - elevation (get_view s (current_view s))))
     = - (view_z (get_view s (current_view s))
            * cos (radians (elevation (get_view s (current_view s))))
          + view_y (get_view s (current_view s)) / zoom_factor (get_view s (current_view s))
            * sin (radians (elevation (get_view s (current_view s)))))"
    by (rule eye_height_closed_form)
  assume "view_y (get_view s (current_view s)) = 100 \<and> view_z (get_view s (current_view s)) = 50
      \<and> zoom_factor (get_view s (current_view s)) = 1
      \<and> elevation (get_view s (current_view s)) = 0"
  then show "display s = Inr (map (\<lambda>actor. (actor, Display_eye_height (- 50) False (mode_2d s)))
                         (actors s))"
    unfolding d eye_height_closed_form by (simp add: radians_def)
qed

theorem display_eye_height_witness:
  "display camera_scene = Inr [(0, Display_eye_height (- 50) False False)]"
proof -
  have v: "get_view camera_scene (current_view camera_scene)
      = (still_view True)\<lparr>view_y := 100, view_z := 50\<rparr>"
    and a: "actors camera_scene = [0]"
    and m: "\<not> mode_2d camera_scene"
    by (simp_all add: camera_scene_def fixture_scene_def add_model_def Scene_def get_view_def
        mode_2d_def)
  have o: "\<not> mode_ortho camera_scene" by (simp add: mode_ortho_def v still_view_def)
  from display_eye_height [of camera_scene] o show ?thesis
    by (simp add: v a m still_view_def radians_def)
qed

end
